theory Spec2Isabelle
  imports Main "HOL-Library.Word" "HOL-Library.Log_Nat" "HOL-Library.Sublist"
begin

unbundle bit_operations_syntax

section \<open>Outcomes of a C function\<close>

text \<open>
  A call of one of the C functions below either returns, or stops in one of three ways:
  an \<^verbatim>\<open>assert\<close> fails, \<^verbatim>\<open>zig_panic\<close> or \<^verbatim>\<open>zig_unreachable\<close> aborts
  the process with a message, or the C standard leaves the behaviour undefined (an
  integer division by zero, a shift by a negative count or by at least the width of the
  type, a null pointer dereference, a read of a union member that was not written).  A
  fourth outcome, \<open>Not_modelled\<close>, marks a call that leaves the part of the program
  embedded here.  Unsigned 64-bit arithmetic wraps (it is arithmetic
  on \<^typ>\<open>64 word\<close>); signed 64-bit negation and subtraction are taken to wrap as well,
  as they do on the two's-complement targets of the compiler.
\<close>

datatype fault = Assert_failed | Zig_panic | Undefined_behavior | Not_modelled

definition and_then :: "fault + 'a \<Rightarrow> ('a \<Rightarrow> fault + 'b) \<Rightarrow> fault + 'b" where
  "and_then m f = (case m of Inl e \<Rightarrow> Inl e | Inr x \<Rightarrow> f x)"

section \<open>The bignum kernel (bignum.cpp)\<close>

datatype BigNumKind = BigNumKindInt | BigNumKindFloat

text \<open>
  \<^verbatim>\<open>BigNum\<close> holds a kind, a sign flag and the union \<^verbatim>\<open>data\<close> of
  \<^verbatim>\<open>uint64_t x_uint\<close> and \<^verbatim>\<open>double x_float\<close>.  The union is its eight bytes:
  \<open>x_uint\<close> reads them as an unsigned integer, \<open>x_float\<close> as an IEEE-754 binary64
  bit pattern.
\<close>

type_synonym double = "64 word"

record BigNum =
  kind :: BigNumKind
  is_negative :: bool
  data :: "64 word"

abbreviation x_uint :: "BigNum \<Rightarrow> 64 word" where
  "x_uint bn \<equiv> data bn"

abbreviation x_float :: "BigNum \<Rightarrow> double" where
  "x_float bn \<equiv> data bn"

text \<open>
  Floating-point arithmetic is done by the host (\<^verbatim>\<open>+\<close>, \<^verbatim>\<open>*\<close>, \<^verbatim>\<open>/\<close>, unary
  \<^verbatim>\<open>-\<close> and \<^verbatim>\<open>fmod\<close> on \<^verbatim>\<open>double\<close>); the functions below take these
  operations as a parameter.  The comparisons of two doubles are fixed by IEEE 754 and are
  written out: a NaN (exponent all ones, fraction not zero) compares false with
  everything, and on the other values the order is the order of the sign-magnitude
  reading of the bit pattern, in which the two zeros are equal.
\<close>

record fpu =
  fadd :: "double \<Rightarrow> double \<Rightarrow> double"
  fmul :: "double \<Rightarrow> double \<Rightarrow> double"
  fdiv :: "double \<Rightarrow> double \<Rightarrow> double"
  fmod :: "double \<Rightarrow> double \<Rightarrow> double"
  fneg :: "double \<Rightarrow> double"

definition double_is_nan :: "double \<Rightarrow> bool" where
  "double_is_nan w = (0x7FF0000000000000 < (w AND 0x7FFFFFFFFFFFFFFF))"

definition double_key :: "double \<Rightarrow> int" where
  "double_key w = (if bit w 63 then - uint (w AND 0x7FFFFFFFFFFFFFFF)
                   else uint (w AND 0x7FFFFFFFFFFFFFFF))"

definition double_eq :: "double \<Rightarrow> double \<Rightarrow> bool" where
  "double_eq a b = (\<not> double_is_nan a \<and> \<not> double_is_nan b \<and> double_key a = double_key b)"

definition double_le :: "double \<Rightarrow> double \<Rightarrow> bool" where
  "double_le a b = (\<not> double_is_nan a \<and> \<not> double_is_nan b \<and> double_key a \<le> double_key b)"

definition double_ge :: "double \<Rightarrow> double \<Rightarrow> bool" where
  "double_ge a b = (\<not> double_is_nan a \<and> \<not> double_is_nan b \<and> double_key b \<le> double_key a)"

text \<open>The overflow builtins of the compiler: the wrapped result and the overflow flag.\<close>

definition uaddll_overflow :: "64 word \<Rightarrow> 64 word \<Rightarrow> 64 word \<times> bool" where
  "uaddll_overflow a b = (a + b, 2 ^ 64 \<le> unat a + unat b)"

definition usubll_overflow :: "64 word \<Rightarrow> 64 word \<Rightarrow> 64 word \<times> bool" where
  "usubll_overflow a b = (a - b, a < b)"

definition umulll_overflow :: "64 word \<Rightarrow> 64 word \<Rightarrow> 64 word \<times> bool" where
  "umulll_overflow a b = (a * b, 2 ^ 64 \<le> unat a * unat b)"

definition UINT64_MAX :: "64 word" where
  "UINT64_MAX = 0xFFFFFFFFFFFFFFFF"

definition INT64_MAX :: "64 word" where
  "INT64_MAX = 0x7FFFFFFFFFFFFFFF"

definition bignum_normalize :: "BigNum \<Rightarrow> fault + BigNum" where
  "bignum_normalize bn =
     (if kind bn \<noteq> BigNumKindInt then Inl Assert_failed
      else if x_uint bn = 0 then Inr (bn\<lparr>is_negative := False\<rparr>)
      else Inr bn)"

definition bignum_init_float :: "BigNum \<Rightarrow> double \<Rightarrow> BigNum" where
  "bignum_init_float dest x = dest\<lparr>kind := BigNumKindFloat, is_negative := False, data := x\<rparr>"

definition bignum_init_unsigned :: "BigNum \<Rightarrow> 64 word \<Rightarrow> BigNum" where
  "bignum_init_unsigned dest x = dest\<lparr>kind := BigNumKindInt, is_negative := False, data := x\<rparr>"

text \<open>The argument is an \<^verbatim>\<open>int64_t\<close>, given by its two's-complement bit pattern.\<close>

definition bignum_init_signed :: "BigNum \<Rightarrow> 64 word \<Rightarrow> BigNum" where
  "bignum_init_signed dest x =
     (if sint x < 0
      then dest\<lparr>kind := BigNumKindInt, is_negative := True, data := (- (x + 1)) + 1\<rparr>
      else dest\<lparr>kind := BigNumKindInt, is_negative := False, data := x\<rparr>)"

definition bignum_init_bignum :: "BigNum \<Rightarrow> BigNum \<Rightarrow> BigNum" where
  "bignum_init_bignum dest src = src"

text \<open>The loop of \<^verbatim>\<open>u64_log2\<close>: one more for every shift until the value is zero.\<close>

function u64_log2_loop :: "64 word \<Rightarrow> nat \<Rightarrow> nat" where
  "u64_log2_loop x result =
     (if x \<noteq> 0 then u64_log2_loop (drop_bit 1 x) (result + 1) else result)"
  by pat_completeness auto
termination
proof (relation "measure (\<lambda>(x, result). unat x)")
  show "wf (measure (\<lambda>(x :: 64 word, result :: nat). unat x))"
    by simp
next
  fix x :: "64 word" and result :: nat
  assume "x \<noteq> 0"
  then have "0 < unat x"
    by (simp add: unat_gt_0)
  then have "unat x div 2 < unat x"
    by simp
  then show "((drop_bit 1 x, result + 1), (x, result)) \<in> measure (\<lambda>(x, result). unat x)"
    by (simp add: drop_bit_eq_div unat_div)
qed

definition u64_log2 :: "64 word \<Rightarrow> nat" where
  "u64_log2 x = u64_log2_loop x 0"

text \<open>\<^verbatim>\<open>bit_count\<close> is a C \<^verbatim>\<open>int\<close>.\<close>

definition bignum_fits_in_bits :: "BigNum \<Rightarrow> int \<Rightarrow> bool \<Rightarrow> fault + bool" where
  "bignum_fits_in_bits bn bit_count is_signed =
     (if kind bn \<noteq> BigNumKindInt then Inl Assert_failed
      else if is_signed then
        (if bit_count < 64 then
           (if bit_count - 1 < 0 then Inl Undefined_behavior
            else
              let max_neg = push_bit (nat (bit_count - 1)) (1 :: 64 word);
                  max_pos = max_neg - 1;
                  max_val = (if is_negative bn then max_neg else max_pos)
              in Inr (x_uint bn \<le> max_val))
         else
           let max_pos = INT64_MAX;
               max_neg = max_pos + 1;
               max_val = (if is_negative bn then max_neg else max_pos)
           in Inr (x_uint bn \<le> max_val))
      else
        (if is_negative bn then Inr (x_uint bn = 0)
         else
           let required_bit_count = u64_log2 (x_uint bn)
           in Inr (bit_count \<ge> int required_bit_count)))"

text \<open>
  The mask \<^verbatim>\<open>(1LL << bit_count) - 1\<close> is computed in \<^verbatim>\<open>long long\<close>: a negative
  shift count is undefined, and at 63 bits the subtraction overflows, which is undefined
  as well.
\<close>

definition bignum_truncate :: "BigNum \<Rightarrow> int \<Rightarrow> fault + BigNum" where
  "bignum_truncate bn bit_count =
     (if kind bn \<noteq> BigNumKindInt then Inl Assert_failed
      else if bit_count < 64 then
        (if bit_count < 0 \<or> bit_count = 63 then Inl Undefined_behavior
         else Inr (bn\<lparr>data := x_uint bn AND (push_bit (nat bit_count) 1 - 1)\<rparr>))
      else Inr bn)"

text \<open>
  The magnitude is copied into an \<^verbatim>\<open>int64_t\<close> and negated there: for the
  magnitude \<open>2\<^sup>6\<^sup>3\<close> the negation overflows, which is undefined.
\<close>

definition bignum_to_twos_complement :: "BigNum \<Rightarrow> fault + 64 word" where
  "bignum_to_twos_complement bn =
     (if kind bn \<noteq> BigNumKindInt then Inl Assert_failed
      else if is_negative bn then
        (if x_uint bn = 0x8000000000000000 then Inl Undefined_behavior
         else Inr (- x_uint bn))
      else Inr (x_uint bn))"

text \<open>
  The arithmetic functions write through \<^verbatim>\<open>dest\<close> and return the overflow flag.
  The contents of \<^verbatim>\<open>*dest\<close> on entry are an argument, the contents on return are
  part of the result: a field that the function does not write keeps its old value.
\<close>

function bignum_add :: "fpu \<Rightarrow> BigNum \<Rightarrow> BigNum \<Rightarrow> BigNum \<Rightarrow> fault + (bool \<times> BigNum)" where
  "bignum_add fp dest op1 op2 =
     (if kind op1 \<noteq> kind op2 then Inl Assert_failed
      else
        let dest = dest\<lparr>kind := kind op1\<rparr> in
        if kind dest = BigNumKindFloat then
          Inr (False, dest\<lparr>data := fadd fp (x_float op1) (x_float op2)\<rparr>)
        else if is_negative op1 = is_negative op2 then
          (let dest = dest\<lparr>is_negative := is_negative op1\<rparr>;
               r = uaddll_overflow (x_uint op1) (x_uint op2)
           in Inr (snd r, dest\<lparr>data := fst r\<rparr>))
        else if \<not> is_negative op1 \<and> is_negative op2 then
          (let r = usubll_overflow (x_uint op1) (x_uint op2);
               dest = dest\<lparr>data := fst r\<rparr>
           in if snd r then
                (let dest = dest\<lparr>data := (UINT64_MAX - x_uint dest) + 1\<rparr>;
                     dest = dest\<lparr>is_negative := True\<rparr>
                 in and_then (bignum_normalize dest) (\<lambda>dest. Inr (False, dest)))
              else and_then (bignum_normalize dest) (\<lambda>dest. Inr (False, dest)))
        else bignum_add fp dest op2 op1)"
  by pat_completeness auto
termination
  by (relation "measure (\<lambda>(fp, dest, op1, op2). if is_negative op1 then 1 else 0)") auto

definition bignum_negate :: "fpu \<Rightarrow> BigNum \<Rightarrow> BigNum \<Rightarrow> fault + BigNum" where
  "bignum_negate fp dest op =
     (let dest = dest\<lparr>kind := kind op\<rparr> in
      if kind dest = BigNumKindFloat then Inr (dest\<lparr>data := fneg fp (x_float op)\<rparr>)
      else
        let dest = dest\<lparr>data := x_uint op\<rparr>;
            dest = dest\<lparr>is_negative := \<not> is_negative op\<rparr>
        in bignum_normalize dest)"

definition bignum_not :: "BigNum \<Rightarrow> BigNum \<Rightarrow> int \<Rightarrow> bool \<Rightarrow> fault + BigNum" where
  "bignum_not dest op bit_count is_signed =
     (if kind op \<noteq> BigNumKindInt then Inl Assert_failed
      else and_then (bignum_to_twos_complement op) (\<lambda>t.
        let bits = NOT t in
        if bit_count < 0 \<or> bit_count = 63 then Inl Undefined_behavior
        else
          let bits = (if bit_count < 64 then bits AND (push_bit (nat bit_count) 1 - 1) else bits)
          in if is_signed then Inr (bignum_init_signed dest bits)
             else Inr (bignum_init_unsigned dest bits)))"

text \<open>
  \<^verbatim>\<open>bignum_sub\<close> negates into the local \<^verbatim>\<open>op2_negated\<close>, which is not
  initialised; its contents on entry are the first argument after the host operations.
\<close>

definition bignum_sub :: "fpu \<Rightarrow> BigNum \<Rightarrow> BigNum \<Rightarrow> BigNum \<Rightarrow> BigNum \<Rightarrow> fault + (bool \<times> BigNum)" where
  "bignum_sub fp op2_negated dest op1 op2 =
     and_then (bignum_negate fp op2_negated op2) (\<lambda>op2_negated.
       bignum_add fp dest op1 op2_negated)"

definition bignum_mul :: "fpu \<Rightarrow> BigNum \<Rightarrow> BigNum \<Rightarrow> BigNum \<Rightarrow> fault + (bool \<times> BigNum)" where
  "bignum_mul fp dest op1 op2 =
     (if kind op1 \<noteq> kind op2 then Inl Assert_failed
      else
        let dest = dest\<lparr>kind := kind op1\<rparr> in
        if kind dest = BigNumKindFloat then
          Inr (False, dest\<lparr>data := fmul fp (x_float op1) (x_float op2)\<rparr>)
        else
          let r = umulll_overflow (x_uint op1) (x_uint op2);
              dest = dest\<lparr>data := fst r\<rparr>
          in if snd r then Inr (True, dest)
             else
               let dest = dest\<lparr>is_negative := (is_negative op1 \<noteq> is_negative op2)\<rparr>
               in and_then (bignum_normalize dest) (\<lambda>dest. Inr (False, dest)))"

definition bignum_div :: "fpu \<Rightarrow> BigNum \<Rightarrow> BigNum \<Rightarrow> BigNum \<Rightarrow> fault + (bool \<times> BigNum)" where
  "bignum_div fp dest op1 op2 =
     (if kind op1 \<noteq> kind op2 then Inl Assert_failed
      else
        let dest = dest\<lparr>kind := kind op1\<rparr> in
        if kind dest = BigNumKindFloat then
          Inr (False, dest\<lparr>data := fdiv fp (x_float op1) (x_float op2)\<rparr>)
        else if x_uint op2 = 0 then Inl Undefined_behavior
        else
          let dest = dest\<lparr>data := x_uint op1 div x_uint op2\<rparr>;
              dest = dest\<lparr>is_negative := (is_negative op1 \<noteq> is_negative op2)\<rparr>
          in and_then (bignum_normalize dest) (\<lambda>dest. Inr (False, dest)))"

definition bignum_rem :: "fpu \<Rightarrow> BigNum \<Rightarrow> BigNum \<Rightarrow> BigNum \<Rightarrow> fault + (bool \<times> BigNum)" where
  "bignum_rem fp dest op1 op2 =
     (if kind op1 \<noteq> kind op2 then Inl Assert_failed
      else
        let dest = dest\<lparr>kind := kind op1\<rparr> in
        if kind dest = BigNumKindFloat then
          Inr (False, dest\<lparr>data := fmod fp (x_float op1) (x_float op2)\<rparr>)
        else if is_negative op1 \<or> is_negative op2 then Inl Zig_panic
        else if x_uint op2 = 0 then Inl Undefined_behavior
        else
          let dest = dest\<lparr>data := x_uint op1 mod x_uint op2\<rparr>
          in and_then (bignum_normalize dest) (\<lambda>dest. Inr (False, dest)))"

text \<open>
  The bitwise functions and the shifts write \<^verbatim>\<open>dest->kind\<close> and
  \<^verbatim>\<open>dest->data.x_uint\<close> only.
\<close>

definition bignum_or :: "BigNum \<Rightarrow> BigNum \<Rightarrow> BigNum \<Rightarrow> fault + (bool \<times> BigNum)" where
  "bignum_or dest op1 op2 =
     (if kind op1 \<noteq> BigNumKindInt \<or> kind op2 \<noteq> BigNumKindInt then Inl Assert_failed
      else if is_negative op1 \<or> is_negative op2 then Inl Assert_failed
      else Inr (False, dest\<lparr>kind := BigNumKindInt, data := x_uint op1 OR x_uint op2\<rparr>))"

definition bignum_and :: "BigNum \<Rightarrow> BigNum \<Rightarrow> BigNum \<Rightarrow> fault + (bool \<times> BigNum)" where
  "bignum_and dest op1 op2 =
     (if kind op1 \<noteq> BigNumKindInt \<or> kind op2 \<noteq> BigNumKindInt then Inl Assert_failed
      else if is_negative op1 \<or> is_negative op2 then Inl Assert_failed
      else Inr (False, dest\<lparr>kind := BigNumKindInt, data := x_uint op1 AND x_uint op2\<rparr>))"

definition bignum_xor :: "BigNum \<Rightarrow> BigNum \<Rightarrow> BigNum \<Rightarrow> fault + (bool \<times> BigNum)" where
  "bignum_xor dest op1 op2 =
     (if kind op1 \<noteq> BigNumKindInt \<or> kind op2 \<noteq> BigNumKindInt then Inl Assert_failed
      else if is_negative op1 \<or> is_negative op2 then Inl Assert_failed
      else Inr (False, dest\<lparr>kind := BigNumKindInt, data := x_uint op1 XOR x_uint op2\<rparr>))"

definition bignum_shl :: "BigNum \<Rightarrow> BigNum \<Rightarrow> BigNum \<Rightarrow> fault + (bool \<times> BigNum)" where
  "bignum_shl dest op1 op2 =
     (if kind op1 \<noteq> BigNumKindInt \<or> kind op2 \<noteq> BigNumKindInt then Inl Assert_failed
      else if is_negative op1 \<or> is_negative op2 then Inl Assert_failed
      else if 64 \<le> unat (x_uint op2) then Inl Undefined_behavior
      else Inr (False, dest\<lparr>kind := BigNumKindInt,
                            data := push_bit (unat (x_uint op2)) (x_uint op1)\<rparr>))"

definition bignum_shr :: "BigNum \<Rightarrow> BigNum \<Rightarrow> BigNum \<Rightarrow> fault + (bool \<times> BigNum)" where
  "bignum_shr dest op1 op2 =
     (if kind op1 \<noteq> BigNumKindInt \<or> kind op2 \<noteq> BigNumKindInt then Inl Assert_failed
      else if is_negative op1 \<or> is_negative op2 then Inl Assert_failed
      else if 64 \<le> unat (x_uint op2) then Inl Undefined_behavior
      else Inr (False, dest\<lparr>kind := BigNumKindInt,
                            data := drop_bit (unat (x_uint op2)) (x_uint op1)\<rparr>))"

definition bignum_cmp_eq :: "BigNum \<Rightarrow> BigNum \<Rightarrow> fault + bool" where
  "bignum_cmp_eq op1 op2 =
     (if kind op1 \<noteq> kind op2 then Inl Assert_failed
      else if kind op1 = BigNumKindFloat then Inr (double_eq (x_float op1) (x_float op2))
      else Inr (x_uint op1 = x_uint op2 \<and>
                (is_negative op1 = is_negative op2 \<or> x_uint op1 = 0)))"

definition bignum_cmp_neq :: "BigNum \<Rightarrow> BigNum \<Rightarrow> fault + bool" where
  "bignum_cmp_neq op1 op2 = and_then (bignum_cmp_eq op1 op2) (\<lambda>r. Inr (\<not> r))"

definition bignum_cmp_lte :: "BigNum \<Rightarrow> BigNum \<Rightarrow> fault + bool" where
  "bignum_cmp_lte op1 op2 =
     (if kind op1 \<noteq> kind op2 then Inl Assert_failed
      else if kind op1 = BigNumKindFloat then Inr (double_le (x_float op1) (x_float op2))
      else if \<not> is_negative op1 \<and> \<not> is_negative op2 then Inr (x_uint op1 \<le> x_uint op2)
      else if is_negative op1 \<and> is_negative op2 then Inr (x_uint op1 \<ge> x_uint op2)
      else if is_negative op1 \<and> \<not> is_negative op2 then Inr True
      else Inr False)"

definition bignum_cmp_gte :: "BigNum \<Rightarrow> BigNum \<Rightarrow> fault + bool" where
  "bignum_cmp_gte op1 op2 =
     (if kind op1 \<noteq> kind op2 then Inl Assert_failed
      else if kind op1 = BigNumKindFloat then Inr (double_ge (x_float op1) (x_float op2))
      else if \<not> is_negative op1 \<and> \<not> is_negative op2 then Inr (x_uint op1 \<ge> x_uint op2)
      else if is_negative op1 \<and> is_negative op2 then Inr (x_uint op1 \<le> x_uint op2)
      else if is_negative op1 \<and> \<not> is_negative op2 then Inr False
      else Inr True)"

definition bignum_cmp_lt :: "BigNum \<Rightarrow> BigNum \<Rightarrow> fault + bool" where
  "bignum_cmp_lt op1 op2 = and_then (bignum_cmp_gte op1 op2) (\<lambda>r. Inr (\<not> r))"

definition bignum_cmp_gt :: "BigNum \<Rightarrow> BigNum \<Rightarrow> fault + bool" where
  "bignum_cmp_gt op1 op2 = and_then (bignum_cmp_lte op1 op2) (\<lambda>r. Inr (\<not> r))"

definition bignum_increment_by_scalar :: "BigNum \<Rightarrow> 64 word \<Rightarrow> fault + (bool \<times> BigNum)" where
  "bignum_increment_by_scalar bignum scalar =
     (if kind bignum \<noteq> BigNumKindInt then Inl Assert_failed
      else if is_negative bignum then Inl Assert_failed
      else let r = uaddll_overflow (x_uint bignum) scalar
           in Inr (snd r, bignum\<lparr>data := fst r\<rparr>))"

definition bignum_multiply_by_scalar :: "BigNum \<Rightarrow> 64 word \<Rightarrow> fault + (bool \<times> BigNum)" where
  "bignum_multiply_by_scalar bignum scalar =
     (if kind bignum \<noteq> BigNumKindInt then Inl Assert_failed
      else if is_negative bignum then Inl Assert_failed
      else let r = umulll_overflow (x_uint bignum) scalar
           in Inr (snd r, bignum\<lparr>data := fst r\<rparr>))"

text \<open>
  The normalization invariant of an integer bignum (magnitude zero implies a positive
  sign) and the integer it stands for.
\<close>

definition normalized :: "BigNum \<Rightarrow> bool" where
  "normalized bn = (x_uint bn = 0 \<longrightarrow> \<not> is_negative bn)"

definition int_of_bignum :: "BigNum \<Rightarrow> int" where
  "int_of_bignum bn = (if is_negative bn then - uint (x_uint bn) else uint (x_uint bn))"

definition example_fpu :: fpu where
  "example_fpu = \<lparr>fadd = (\<lambda>a b. a), fmul = (\<lambda>a b. a), fdiv = (\<lambda>a b. a),
     fmod = (\<lambda>a b. a), fneg = (\<lambda>a. a)\<rparr>"

section \<open>Types and values of the lowering engine (codegen.cpp)\<close>

text \<open>
  Handles of the LLVM C API.  An \<^verbatim>\<open>LLVMTypeRef\<close> and an \<^verbatim>\<open>LLVMValueRef\<close> are
  opaque pointers; here they are terms that say how the handle was obtained.  A value made
  before expression lowering starts (a parameter, an \<^verbatim>\<open>alloca\<close> of the function
  prologue, a global, a function) is \<open>LLVMNamedValue\<close>; the result of an instruction
  built into a basic block is \<open>LLVMInstruction b i\<close>, the \<open>i\<close>-th instruction of the
  \<open>b\<close>-th basic block of the current function.
\<close>

datatype LLVMTypeRef =
    null_type
  | LLVMVoidType
  | LLVMInt1Type
  | LLVMInt8Type
  | LLVMInt32Type
  | LLVMIntType nat
  | LLVMPointerType LLVMTypeRef
  | LLVMNamedType string
  | LLVMTypeOf LLVMValueRef
and LLVMValueRef =
    nullptr
  | LLVMConstNull LLVMTypeRef
  | LLVMConstAllOnes LLVMTypeRef
  | LLVMConstInt LLVMTypeRef nat bool
  | LLVMNamedValue string
  | LLVMInstruction nat nat

datatype TypeTableEntryId =
    TypeTableEntryIdInvalid
  | TypeTableEntryIdMetaType
  | TypeTableEntryIdVoid
  | TypeTableEntryIdBool
  | TypeTableEntryIdUnreachable
  | TypeTableEntryIdInt
  | TypeTableEntryIdFloat
  | TypeTableEntryIdPointer
  | TypeTableEntryIdArray
  | TypeTableEntryIdStruct
  | TypeTableEntryIdNumberLiteral
  | TypeTableEntryIdMaybe
  | TypeTableEntryIdEnum
  | TypeTableEntryIdFn

text \<open>
  \<^verbatim>\<open>TypeTableEntry\<close>: the fields common to all types and the union \<^verbatim>\<open>data\<close>, one
  constructor for each member the lowering reads; \<^verbatim>\<open>id\<close> is read off the
  constructor.  A struct lists the types of its fields in order.
\<close>

datatype TypeTableEntry =
  TypeTableEntry (type_ref: LLVMTypeRef) (size_in_bits: nat) (align_in_bits: nat)
    (type_data: TypeTableEntryData)
and TypeTableEntryData =
    DataInvalid
  | DataMetaType
  | DataVoid
  | DataBool
  | DataUnreachable
  | DataNumberLiteral
  | DataFloat
  | DataEnum
  | DataIntegral (is_signed: bool)
  | DataPointer (pointer_child_type: TypeTableEntry) (is_const: bool)
  | DataArray (array_child_type: TypeTableEntry) (array_len: nat)
  | DataStructure (is_unknown_size_array: bool) (fields: "TypeTableEntry list")
  | DataMaybe (maybe_child_type: TypeTableEntry)
  | DataFn (src_param_count: nat) (is_var_args: bool) (return_type: TypeTableEntry)
      (calling_convention: nat)

fun type_id :: "TypeTableEntry \<Rightarrow> TypeTableEntryId" where
  "type_id (TypeTableEntry r s a d) =
     (case d of
        DataInvalid \<Rightarrow> TypeTableEntryIdInvalid
      | DataMetaType \<Rightarrow> TypeTableEntryIdMetaType
      | DataVoid \<Rightarrow> TypeTableEntryIdVoid
      | DataBool \<Rightarrow> TypeTableEntryIdBool
      | DataUnreachable \<Rightarrow> TypeTableEntryIdUnreachable
      | DataNumberLiteral \<Rightarrow> TypeTableEntryIdNumberLiteral
      | DataFloat \<Rightarrow> TypeTableEntryIdFloat
      | DataEnum \<Rightarrow> TypeTableEntryIdEnum
      | DataIntegral _ \<Rightarrow> TypeTableEntryIdInt
      | DataPointer _ _ \<Rightarrow> TypeTableEntryIdPointer
      | DataArray _ _ \<Rightarrow> TypeTableEntryIdArray
      | DataStructure _ _ \<Rightarrow> TypeTableEntryIdStruct
      | DataMaybe _ \<Rightarrow> TypeTableEntryIdMaybe
      | DataFn _ _ _ _ \<Rightarrow> TypeTableEntryIdFn)"

text \<open>
  Modelled from the spec: \<^verbatim>\<open>handle_is_ptr\<close> (analyze.cpp) is true iff the type is a
  struct, a slice, a maybe or an array; a slice is a struct with
  \<^verbatim>\<open>is_unknown_size_array\<close> set.
\<close>

definition handle_is_ptr :: "TypeTableEntry \<Rightarrow> bool" where
  "handle_is_ptr type_entry =
     (type_id type_entry = TypeTableEntryIdStruct \<or> type_id type_entry = TypeTableEntryIdMaybe \<or>
      type_id type_entry = TypeTableEntryIdArray)"












definition entry_bool :: TypeTableEntry where
  "entry_bool = TypeTableEntry LLVMInt1Type 8 8 DataBool"

definition entry_isize :: "nat \<Rightarrow> TypeTableEntry" where
  "entry_isize pointer_size_bytes =
     TypeTableEntry (LLVMIntType (pointer_size_bytes * 8)) (pointer_size_bytes * 8)
       (pointer_size_bytes * 8) (DataIntegral True)"


definition entry_unreachable :: TypeTableEntry where
  "entry_unreachable = TypeTableEntry LLVMVoidType 0 0 DataUnreachable"





section \<open>The LLVM builder\<close>

datatype LLVMOpcode =
    LLVMOr | LLVMXor | LLVMAnd | LLVMShl | LLVMAShr | LLVMLShr
  | LLVMFAdd | LLVMAdd | LLVMFSub | LLVMSub | LLVMFMul | LLVMMul
  | LLVMFDiv | LLVMSDiv | LLVMUDiv | LLVMFRem | LLVMSRem | LLVMURem

datatype LLVMIntPredicate =
    LLVMIntEQ | LLVMIntNE | LLVMIntSLT | LLVMIntULT | LLVMIntSGT | LLVMIntUGT
  | LLVMIntSLE | LLVMIntULE | LLVMIntSGE | LLVMIntUGE

datatype LLVMRealPredicate =
    LLVMRealOEQ | LLVMRealONE | LLVMRealOLT | LLVMRealOGT | LLVMRealOLE | LLVMRealOGE

text \<open>
  The instructions the lowering builds.  A basic block is referred to by its index in the
  list of blocks of the current function.  A \<open>Phi\<close> lists its incoming values with
  their blocks.  A \<open>Call\<close> has the calling convention that \<^verbatim>\<open>LLVMZigBuildCall\<close>
  sets, or none (\<^verbatim>\<open>LLVMBuildCall\<close>).
\<close>

datatype LLVMInstr =
    Load LLVMValueRef
  | Store LLVMValueRef LLVMValueRef
  | StructGEP LLVMValueRef nat
  | InBoundsGEP LLVMValueRef "LLVMValueRef list"
  | BitCast LLVMValueRef LLVMTypeRef
  | PtrToInt LLVMValueRef LLVMTypeRef
  | SExt LLVMValueRef LLVMTypeRef
  | ZExt LLVMValueRef LLVMTypeRef
  | Trunc LLVMValueRef LLVMTypeRef
  | BinaryOp LLVMOpcode LLVMValueRef LLVMValueRef
  | Neg LLVMValueRef
  | Not LLVMValueRef
  | ICmp LLVMIntPredicate LLVMValueRef LLVMValueRef
  | FCmp LLVMRealPredicate LLVMValueRef LLVMValueRef
  | Br nat
  | CondBr LLVMValueRef nat nat
  | Phi LLVMTypeRef "(LLVMValueRef \<times> nat) list"
  | Call LLVMValueRef "LLVMValueRef list" "nat option"
  | Unreachable

text \<open>
  The part of \<^verbatim>\<open>CodeGen\<close> that expression lowering reads and writes: the basic
  blocks of \<^verbatim>\<open>g->cur_fn->fn_value\<close> (name and instructions, in the order in which
  they were appended), the block at whose end \<^verbatim>\<open>g->builder\<close> inserts, the two
  stacks of loop targets (a break target may be \<^verbatim>\<open>nullptr\<close>), the current block
  context, and three constants of the module.  Debug locations are not part of the model:
  \<^verbatim>\<open>add_debug_source_node\<close> has no counterpart, and neither have the assertions on
  \<^verbatim>\<open>LLVMGetTypeKind\<close>.
\<close>

record CodeGen =
  blocks :: "(string \<times> LLVMInstr list) list"
  insert_block :: nat
  break_block_stack :: "nat option list"
  continue_block_stack :: "nat list"
  cur_block_context :: "nat option"
  isize_type_ref :: LLVMTypeRef
  memcpy_fn_val :: LLVMValueRef
  pointer_size_bytes :: nat

definition LLVMAppendBasicBlock :: "string \<Rightarrow> CodeGen \<Rightarrow> nat \<times> CodeGen" where
  "LLVMAppendBasicBlock name g = (length (blocks g), g\<lparr>blocks := blocks g @ [(name, [])]\<rparr>)"

definition LLVMPositionBuilderAtEnd :: "nat \<Rightarrow> CodeGen \<Rightarrow> CodeGen" where
  "LLVMPositionBuilderAtEnd block g = g\<lparr>insert_block := block\<rparr>"

definition LLVMGetInsertBlock :: "CodeGen \<Rightarrow> nat" where
  "LLVMGetInsertBlock g = insert_block g"

text \<open>
  \<^verbatim>\<open>LLVMBuild...\<close>: the instruction goes to the end of the insertion block and its
  position is the handle of its value.  Without an insertion block nothing is inserted.
\<close>

definition LLVMBuild :: "LLVMInstr \<Rightarrow> CodeGen \<Rightarrow> LLVMValueRef \<times> CodeGen" where
  "LLVMBuild instr g =
     (let b = insert_block g in
      if b < length (blocks g) then
        (LLVMInstruction b (length (snd (blocks g ! b))),
         g\<lparr>blocks := (blocks g)[b := (fst (blocks g ! b), snd (blocks g ! b) @ [instr])]\<rparr>)
      else (LLVMInstruction b 0, g))"

text \<open>\<^verbatim>\<open>LLVMAddIncoming\<close> adds incoming values to the phi that the handle points at.\<close>

definition LLVMAddIncoming :: "LLVMValueRef \<Rightarrow> (LLVMValueRef \<times> nat) list \<Rightarrow> CodeGen \<Rightarrow> CodeGen" where
  "LLVMAddIncoming phi incoming g =
     (case phi of
        LLVMInstruction b i \<Rightarrow>
          (if b < length (blocks g) \<and> i < length (snd (blocks g ! b)) then
             (case snd (blocks g ! b) ! i of
                Phi ty old \<Rightarrow>
                  g\<lparr>blocks := (blocks g)[b := (fst (blocks g ! b),
                        (snd (blocks g ! b))[i := Phi ty (old @ incoming)])]\<rparr>
              | _ \<Rightarrow> g)
           else g)
      | _ \<Rightarrow> g)"

section \<open>The annotated syntax tree\<close>

datatype CastOp =
    CastOpNothing | CastOpPtrToInt | CastOpIntWidenOrShorten | CastOpToUnknownSizeArray
  | CastOpMaybeWrap | CastOpPointerReinterpret

record Cast =
  cast_op :: CastOp
  after_type :: "TypeTableEntry option"
  cast_ptr :: LLVMValueRef

text \<open>
  \<^verbatim>\<open>Expr\<close>, the resolved annotation of an expression node.  \<open>node_is_void_expr\<close> is
  what \<^verbatim>\<open>is_node_void_expr\<close> (analyze.cpp) answers for the node.
\<close>

record Expr =
  type_entry :: TypeTableEntry
  implicit_cast :: Cast
  implicit_maybe_cast :: Cast
  node_is_void_expr :: bool

record VariableTableEntry =
  var_type :: TypeTableEntry
  is_ptr :: bool
  var_is_const :: bool
  value_ref :: LLVMValueRef

record FnTableEntry =
  fn_value :: LLVMValueRef
  fn_type_entry :: TypeTableEntry

record TypeStructField =
  gen_index :: int
  field_type_entry :: TypeTableEntry

datatype BinOpType =
    BinOpTypeInvalid
  | BinOpTypeAssign | BinOpTypeAssignTimes | BinOpTypeAssignDiv | BinOpTypeAssignMod
  | BinOpTypeAssignPlus | BinOpTypeAssignMinus | BinOpTypeAssignBitShiftLeft
  | BinOpTypeAssignBitShiftRight | BinOpTypeAssignBitAnd | BinOpTypeAssignBitXor
  | BinOpTypeAssignBitOr | BinOpTypeAssignBoolAnd | BinOpTypeAssignBoolOr
  | BinOpTypeBoolOr | BinOpTypeBoolAnd
  | BinOpTypeCmpEq | BinOpTypeCmpNotEq | BinOpTypeCmpLessThan | BinOpTypeCmpGreaterThan
  | BinOpTypeCmpLessOrEq | BinOpTypeCmpGreaterOrEq
  | BinOpTypeBinOr | BinOpTypeBinXor | BinOpTypeBinAnd
  | BinOpTypeBitShiftLeft | BinOpTypeBitShiftRight
  | BinOpTypeAdd | BinOpTypeSub | BinOpTypeMult | BinOpTypeDiv | BinOpTypeMod
  | BinOpTypeUnwrapMaybe

datatype PrefixOp =
    PrefixOpInvalid | PrefixOpBoolNot | PrefixOpBinNot | PrefixOpNegation
  | PrefixOpAddressOf | PrefixOpConstAddressOf | PrefixOpDereference | PrefixOpMaybe

text \<open>
  The expression nodes embedded here, each with its annotation and the fields of
  \<^verbatim>\<open>node->data\<close> that the lowering reads:
  a bool literal (value); a symbol (variable, function entry); a function call (callee
  expression, parameters, function entry); a binary operation (operator, operands); a
  prefix operation (operator, operand); an array access (array, subscript); a field access
  (struct expression, field name, resolved struct field); a slice expression (array,
  start, optional end, the temporary reserved for the result); a while loop (condition,
  body, \<^verbatim>\<open>condition_always_true\<close>, \<^verbatim>\<open>contains_break\<close>, block context);
  \<^verbatim>\<open>break\<close>; \<^verbatim>\<open>continue\<close>.
\<close>

datatype AstNode =
    NodeTypeBoolLiteral Expr bool
  | NodeTypeSymbol Expr "VariableTableEntry option" "FnTableEntry option"
  | NodeTypeFnCallExpr Expr AstNode "AstNode list" "FnTableEntry option"
  | NodeTypeBinOpExpr Expr BinOpType AstNode AstNode
  | NodeTypePrefixOpExpr Expr PrefixOp AstNode
  | NodeTypeArrayAccessExpr Expr AstNode AstNode
  | NodeTypeFieldAccessExpr Expr AstNode string "TypeStructField option"
  | NodeTypeSliceExpr Expr AstNode AstNode "AstNode option" LLVMValueRef
  | NodeTypeWhileExpr Expr AstNode AstNode bool bool "nat option"
  | NodeTypeBreak Expr
  | NodeTypeContinue Expr

fun get_resolved_expr :: "AstNode \<Rightarrow> Expr" where
  "get_resolved_expr (NodeTypeBoolLiteral e _) = e"
| "get_resolved_expr (NodeTypeSymbol e _ _) = e"
| "get_resolved_expr (NodeTypeFnCallExpr e _ _ _) = e"
| "get_resolved_expr (NodeTypeBinOpExpr e _ _ _) = e"
| "get_resolved_expr (NodeTypePrefixOpExpr e _ _) = e"
| "get_resolved_expr (NodeTypeArrayAccessExpr e _ _) = e"
| "get_resolved_expr (NodeTypeFieldAccessExpr e _ _ _) = e"
| "get_resolved_expr (NodeTypeSliceExpr e _ _ _ _) = e"
| "get_resolved_expr (NodeTypeWhileExpr e _ _ _ _ _) = e"
| "get_resolved_expr (NodeTypeBreak e) = e"
| "get_resolved_expr (NodeTypeContinue e) = e"

definition get_expr_type :: "AstNode \<Rightarrow> TypeTableEntry" where
  "get_expr_type node =
     (let expr = get_resolved_expr node in
      case after_type (implicit_maybe_cast expr) of
        Some t \<Rightarrow> t
      | None \<Rightarrow>
          (case after_type (implicit_cast expr) of
             Some t \<Rightarrow> t
           | None \<Rightarrow> type_entry expr))"

section \<open>Lowering: the functions that do not lower a sub-expression\<close>

definition cmp_op_to_int_predicate :: "BinOpType \<Rightarrow> bool \<Rightarrow> fault + LLVMIntPredicate" where
  "cmp_op_to_int_predicate cmp_op is_signed' =
     (if cmp_op = BinOpTypeCmpEq then Inr LLVMIntEQ
      else if cmp_op = BinOpTypeCmpNotEq then Inr LLVMIntNE
      else if cmp_op = BinOpTypeCmpLessThan then Inr (if is_signed' then LLVMIntSLT else LLVMIntULT)
      else if cmp_op = BinOpTypeCmpGreaterThan then Inr (if is_signed' then LLVMIntSGT else LLVMIntUGT)
      else if cmp_op = BinOpTypeCmpLessOrEq then Inr (if is_signed' then LLVMIntSLE else LLVMIntULE)
      else if cmp_op = BinOpTypeCmpGreaterOrEq then Inr (if is_signed' then LLVMIntSGE else LLVMIntUGE)
      else Inl Zig_panic)"

definition cmp_op_to_real_predicate :: "BinOpType \<Rightarrow> fault + LLVMRealPredicate" where
  "cmp_op_to_real_predicate cmp_op =
     (if cmp_op = BinOpTypeCmpEq then Inr LLVMRealOEQ
      else if cmp_op = BinOpTypeCmpNotEq then Inr LLVMRealONE
      else if cmp_op = BinOpTypeCmpLessThan then Inr LLVMRealOLT
      else if cmp_op = BinOpTypeCmpGreaterThan then Inr LLVMRealOGT
      else if cmp_op = BinOpTypeCmpLessOrEq then Inr LLVMRealOLE
      else if cmp_op = BinOpTypeCmpGreaterOrEq then Inr LLVMRealOGE
      else Inl Zig_panic)"

text \<open>Reads of \<^verbatim>\<open>data.integral.is_signed\<close> and of the first field of a slice type.\<close>

definition integral_is_signed :: "TypeTableEntry \<Rightarrow> fault + bool" where
  "integral_is_signed t =
     (case type_data t of DataIntegral s \<Rightarrow> Inr s | _ \<Rightarrow> Inl Undefined_behavior)"

definition structure_field0 :: "TypeTableEntry \<Rightarrow> fault + TypeTableEntry" where
  "structure_field0 t =
     (case type_data t of
        DataStructure _ (f # _) \<Rightarrow> Inr f
      | _ \<Rightarrow> Inl Undefined_behavior)"

definition gen_array_elem_ptr ::
  "LLVMValueRef \<Rightarrow> TypeTableEntry \<Rightarrow> LLVMValueRef \<Rightarrow> CodeGen \<Rightarrow> fault + (LLVMValueRef \<times> CodeGen)" where
  "gen_array_elem_ptr array_ptr array_type subscript_value g =
     (if subscript_value = nullptr then Inl Assert_failed
      else if size_in_bits array_type = 0 then Inr (nullptr, g)
      else if type_id array_type = TypeTableEntryIdArray then
        Inr (LLVMBuild (InBoundsGEP array_ptr
               [LLVMConstNull (isize_type_ref g), subscript_value]) g)
      else if type_id array_type = TypeTableEntryIdPointer then
        Inr (LLVMBuild (InBoundsGEP array_ptr [subscript_value]) g)
      else if type_id array_type = TypeTableEntryIdStruct then
        (if \<not> is_unknown_size_array (type_data array_type) then Inl Assert_failed
         else
           case LLVMBuild (StructGEP array_ptr 0) g of (ptr_ptr, g) \<Rightarrow>
           case LLVMBuild (Load ptr_ptr) g of (ptr, g) \<Rightarrow>
             Inr (LLVMBuild (InBoundsGEP ptr [subscript_value]) g))
      else Inl Zig_panic)"

definition gen_arithmetic_bin_op ::
  "LLVMValueRef \<Rightarrow> LLVMValueRef \<Rightarrow> TypeTableEntry \<Rightarrow> TypeTableEntry \<Rightarrow> BinOpType \<Rightarrow> CodeGen
     \<Rightarrow> fault + (LLVMValueRef \<times> CodeGen)" where
  "gen_arithmetic_bin_op val1 val2 op1_type op2_type bin_op g =
     (if op1_type \<noteq> op2_type then Inl Assert_failed
      else if bin_op = BinOpTypeBinOr \<or> bin_op = BinOpTypeAssignBitOr then
        Inr (LLVMBuild (BinaryOp LLVMOr val1 val2) g)
      else if bin_op = BinOpTypeBinXor \<or> bin_op = BinOpTypeAssignBitXor then
        Inr (LLVMBuild (BinaryOp LLVMXor val1 val2) g)
      else if bin_op = BinOpTypeBinAnd \<or> bin_op = BinOpTypeAssignBitAnd then
        Inr (LLVMBuild (BinaryOp LLVMAnd val1 val2) g)
      else if bin_op = BinOpTypeBitShiftLeft \<or> bin_op = BinOpTypeAssignBitShiftLeft then
        Inr (LLVMBuild (BinaryOp LLVMShl val1 val2) g)
      else if bin_op = BinOpTypeBitShiftRight \<or> bin_op = BinOpTypeAssignBitShiftRight then
        (if type_id op1_type \<noteq> TypeTableEntryIdInt then Inl Assert_failed
         else if type_id op2_type \<noteq> TypeTableEntryIdInt then Inl Assert_failed
         else if is_signed (type_data op1_type) then Inr (LLVMBuild (BinaryOp LLVMAShr val1 val2) g)
         else Inr (LLVMBuild (BinaryOp LLVMLShr val1 val2) g))
      else if bin_op = BinOpTypeAdd \<or> bin_op = BinOpTypeAssignPlus then
        (if type_id op1_type = TypeTableEntryIdFloat then Inr (LLVMBuild (BinaryOp LLVMFAdd val1 val2) g)
         else Inr (LLVMBuild (BinaryOp LLVMAdd val1 val2) g))
      else if bin_op = BinOpTypeSub \<or> bin_op = BinOpTypeAssignMinus then
        (if type_id op1_type = TypeTableEntryIdFloat then Inr (LLVMBuild (BinaryOp LLVMFSub val1 val2) g)
         else Inr (LLVMBuild (BinaryOp LLVMSub val1 val2) g))
      else if bin_op = BinOpTypeMult \<or> bin_op = BinOpTypeAssignTimes then
        (if type_id op1_type = TypeTableEntryIdFloat then Inr (LLVMBuild (BinaryOp LLVMFMul val1 val2) g)
         else Inr (LLVMBuild (BinaryOp LLVMMul val1 val2) g))
      else if bin_op = BinOpTypeDiv \<or> bin_op = BinOpTypeAssignDiv then
        (if type_id op1_type = TypeTableEntryIdFloat then Inr (LLVMBuild (BinaryOp LLVMFDiv val1 val2) g)
         else if type_id op1_type \<noteq> TypeTableEntryIdInt then Inl Assert_failed
         else if is_signed (type_data op1_type) then Inr (LLVMBuild (BinaryOp LLVMSDiv val1 val2) g)
         else Inr (LLVMBuild (BinaryOp LLVMUDiv val1 val2) g))
      else if bin_op = BinOpTypeMod \<or> bin_op = BinOpTypeAssignMod then
        (if type_id op1_type = TypeTableEntryIdFloat then Inr (LLVMBuild (BinaryOp LLVMFRem val1 val2) g)
         else if type_id op1_type \<noteq> TypeTableEntryIdInt then Inl Assert_failed
         else if is_signed (type_data op1_type) then Inr (LLVMBuild (BinaryOp LLVMSRem val1 val2) g)
         else Inr (LLVMBuild (BinaryOp LLVMURem val1 val2) g))
      else Inl Zig_panic)"

definition gen_struct_memcpy ::
  "LLVMValueRef \<Rightarrow> LLVMValueRef \<Rightarrow> TypeTableEntry \<Rightarrow> CodeGen \<Rightarrow> fault + (LLVMValueRef \<times> CodeGen)" where
  "gen_struct_memcpy src dest type_entry' g =
     (if \<not> handle_is_ptr type_entry' then Inl Assert_failed
      else
        let ptr_u8 = LLVMPointerType LLVMInt8Type in
        case LLVMBuild (BitCast src ptr_u8) g of (src_ptr, g) \<Rightarrow>
        case LLVMBuild (BitCast dest ptr_u8) g of (dest_ptr, g) \<Rightarrow>
          Inr (LLVMBuild (Call (memcpy_fn_val g)
                 [dest_ptr, src_ptr,
                  LLVMConstInt (LLVMIntType (pointer_size_bytes g * 8)) (size_in_bits type_entry' div 8) False,
                  LLVMConstInt LLVMInt32Type (align_in_bits type_entry' div 8) False,
                  LLVMConstNull LLVMInt1Type] None) g))"

definition is_bin_op_expr :: "AstNode \<Rightarrow> bool" where
  "is_bin_op_expr node = (case node of NodeTypeBinOpExpr _ _ _ _ \<Rightarrow> True | _ \<Rightarrow> False)"

definition gen_assign_raw ::
  "AstNode \<Rightarrow> BinOpType \<Rightarrow> LLVMValueRef \<Rightarrow> LLVMValueRef \<Rightarrow> TypeTableEntry \<Rightarrow> TypeTableEntry \<Rightarrow> CodeGen
     \<Rightarrow> fault + (LLVMValueRef \<times> CodeGen)" where
  "gen_assign_raw source_node bin_op target_ref value op1_type op2_type g =
     (if handle_is_ptr op1_type then
        (if op1_type \<noteq> op2_type then Inl Assert_failed
         else if bin_op \<noteq> BinOpTypeAssign then Inl Assert_failed
         else gen_struct_memcpy value target_ref op1_type g)
      else if bin_op \<noteq> BinOpTypeAssign then
        (if \<not> is_bin_op_expr source_node then Inl Assert_failed
         else
           case LLVMBuild (Load target_ref) g of (left_value, g) \<Rightarrow>
           case gen_arithmetic_bin_op left_value value op1_type op2_type bin_op g of
             Inl e \<Rightarrow> Inl e
           | Inr (value, g) \<Rightarrow> Inr (LLVMBuild (Store value target_ref) g))
      else Inr (LLVMBuild (Store value target_ref) g))"

definition gen_bare_cast ::
  "AstNode \<Rightarrow> LLVMValueRef \<Rightarrow> TypeTableEntry \<Rightarrow> TypeTableEntry \<Rightarrow> Cast \<Rightarrow> CodeGen
     \<Rightarrow> fault + (LLVMValueRef \<times> CodeGen)" where
  "gen_bare_cast node expr_val actual_type wanted_type cast_node g =
     (case cast_op cast_node of
        CastOpNothing \<Rightarrow> Inr (expr_val, g)
      | CastOpMaybeWrap \<Rightarrow>
          (if cast_ptr cast_node = nullptr then Inl Assert_failed
           else if type_id wanted_type \<noteq> TypeTableEntryIdMaybe then Inl Assert_failed
           else
             case LLVMBuild (StructGEP (cast_ptr cast_node) 0) g of (val_ptr, g) \<Rightarrow>
             case gen_assign_raw node BinOpTypeAssign val_ptr expr_val
                    (maybe_child_type (type_data wanted_type)) actual_type g of
               Inl e \<Rightarrow> Inl e
             | Inr (_, g) \<Rightarrow>
                 case LLVMBuild (StructGEP (cast_ptr cast_node) 1) g of (maybe_ptr, g) \<Rightarrow>
                 case LLVMBuild (Store (LLVMConstAllOnes LLVMInt1Type) maybe_ptr) g of (_, g) \<Rightarrow>
                   Inr (cast_ptr cast_node, g))
      | CastOpPtrToInt \<Rightarrow> Inr (LLVMBuild (PtrToInt expr_val (type_ref wanted_type)) g)
      | CastOpPointerReinterpret \<Rightarrow> Inr (LLVMBuild (BitCast expr_val (type_ref wanted_type)) g)
      | CastOpIntWidenOrShorten \<Rightarrow>
          (if size_in_bits actual_type = size_in_bits wanted_type then Inr (expr_val, g)
           else if size_in_bits actual_type < size_in_bits wanted_type then
             (case integral_is_signed actual_type of
                Inl e \<Rightarrow> Inl e
              | Inr s \<Rightarrow>
                  if s then Inr (LLVMBuild (SExt expr_val (type_ref wanted_type)) g)
                  else Inr (LLVMBuild (ZExt expr_val (type_ref wanted_type)) g))
           else Inr (LLVMBuild (Trunc expr_val (type_ref wanted_type)) g))
      | CastOpToUnknownSizeArray \<Rightarrow>
          (if cast_ptr cast_node = nullptr then Inl Assert_failed
           else
             case structure_field0 wanted_type of
               Inl e \<Rightarrow> Inl e
             | Inr pointer_type \<Rightarrow>
                 case LLVMBuild (StructGEP (cast_ptr cast_node) 0) g of (ptr_ptr, g) \<Rightarrow>
                 case LLVMBuild (BitCast expr_val (type_ref pointer_type)) g of (expr_bitcast, g) \<Rightarrow>
                 case LLVMBuild (Store expr_bitcast ptr_ptr) g of (_, g) \<Rightarrow>
                 case LLVMBuild (StructGEP (cast_ptr cast_node) 1) g of (len_ptr, g) \<Rightarrow>
                   (case type_data actual_type of
                      DataArray _ n \<Rightarrow>
                        (case LLVMBuild (Store (LLVMConstInt (isize_type_ref g) n False) len_ptr) g of
                           (_, g) \<Rightarrow> Inr (cast_ptr cast_node, g))
                    | _ \<Rightarrow> Inl Undefined_behavior)))"

text \<open>The part of \<^verbatim>\<open>gen_expr\<close> that follows the call of \<^verbatim>\<open>gen_expr_no_cast\<close>.\<close>

definition gen_expr_casts :: "AstNode \<Rightarrow> LLVMValueRef \<Rightarrow> CodeGen \<Rightarrow> fault + (LLVMValueRef \<times> CodeGen)" where
  "gen_expr_casts node val g =
     (if node_is_void_expr (get_resolved_expr node) then Inr (val, g)
      else
        let expr = get_resolved_expr node;
            before_type = type_entry expr
        in if type_id before_type = TypeTableEntryIdUnreachable then Inr (val, g)
           else
             case (case after_type (implicit_cast expr) of
                     None \<Rightarrow> Inr ((val, before_type), g)
                   | Some t \<Rightarrow>
                       (case gen_bare_cast node val before_type t (implicit_cast expr) g of
                          Inl e \<Rightarrow> Inl e
                        | Inr (val, g) \<Rightarrow> Inr ((val, t), g))) of
               Inl e \<Rightarrow> Inl e
             | Inr ((val, before_type), g) \<Rightarrow>
                 (case after_type (implicit_maybe_cast expr) of
                    None \<Rightarrow> Inr (val, g)
                  | Some t \<Rightarrow> gen_bare_cast node val before_type t (implicit_maybe_cast expr) g))"

definition gen_symbol :: "AstNode \<Rightarrow> CodeGen \<Rightarrow> fault + (LLVMValueRef \<times> CodeGen)" where
  "gen_symbol node g =
     (case node of
        NodeTypeSymbol _ variable fn_entry \<Rightarrow>
          (case variable of
             Some variable \<Rightarrow>
               (if size_in_bits (var_type variable) = 0 then Inr (nullptr, g)
                else if is_ptr variable then
                  (if value_ref variable = nullptr then Inl Assert_failed
                   else if type_id (var_type variable) = TypeTableEntryIdArray then
                     Inr (value_ref variable, g)
                   else if type_id (var_type variable) = TypeTableEntryIdStruct \<or>
                           type_id (var_type variable) = TypeTableEntryIdMaybe then
                     Inr (value_ref variable, g)
                   else Inr (LLVMBuild (Load (value_ref variable)) g))
                else Inr (value_ref variable, g))
           | None \<Rightarrow>
               (case fn_entry of
                  None \<Rightarrow> Inl Assert_failed
                | Some fn_entry \<Rightarrow> Inr (fn_value fn_entry, g)))
      | _ \<Rightarrow> Inl Assert_failed)"

text \<open>
  \<^verbatim>\<open>ZigList::last\<close> asserts that the list is not empty; a branch to \<^verbatim>\<open>nullptr\<close>
  is undefined.
\<close>

definition gen_break :: "AstNode \<Rightarrow> CodeGen \<Rightarrow> fault + (LLVMValueRef \<times> CodeGen)" where
  "gen_break node g =
     (case node of
        NodeTypeBreak _ \<Rightarrow>
          (if break_block_stack g = [] then Inl Assert_failed
           else
             case last (break_block_stack g) of
               None \<Rightarrow> Inl Undefined_behavior
             | Some dest_block \<Rightarrow> Inr (LLVMBuild (Br dest_block) g))
      | _ \<Rightarrow> Inl Assert_failed)"

definition gen_continue :: "AstNode \<Rightarrow> CodeGen \<Rightarrow> fault + (LLVMValueRef \<times> CodeGen)" where
  "gen_continue node g =
     (case node of
        NodeTypeContinue _ \<Rightarrow>
          (if continue_block_stack g = [] then Inl Assert_failed
           else Inr (LLVMBuild (Br (last (continue_block_stack g))) g))
      | _ \<Rightarrow> Inl Assert_failed)"

section \<open>Lowering of expressions\<close>

text \<open>
  The functions that lower an expression node call one another; each takes the state
  of the builder and returns the value of the expression with the new state.  Function
  calls that are builtin or casts (\<^verbatim>\<open>is_builtin\<close>, \<^verbatim>\<open>cast.after_type\<close>) are not
  among the nodes embedded here; a field access resolves its variable through the
  annotation of the symbol node; \<^verbatim>\<open>gen_fn_call_params\<close> is the loop over the
  parameters in \<^verbatim>\<open>gen_fn_call_expr\<close>; \<^verbatim>\<open>gen_lvalue\<close> returns
  \<^verbatim>\<open>*out_type_entry\<close> beside the address.
\<close>

function
  gen_expr :: "AstNode \<Rightarrow> CodeGen \<Rightarrow> fault + (LLVMValueRef \<times> CodeGen)" and
  gen_expr_no_cast :: "AstNode \<Rightarrow> CodeGen \<Rightarrow> fault + (LLVMValueRef \<times> CodeGen)" and
  gen_bin_op_expr :: "AstNode \<Rightarrow> CodeGen \<Rightarrow> fault + (LLVMValueRef \<times> CodeGen)" and
  gen_assign_expr :: "AstNode \<Rightarrow> CodeGen \<Rightarrow> fault + (LLVMValueRef \<times> CodeGen)" and
  gen_bool_and_expr :: "AstNode \<Rightarrow> CodeGen \<Rightarrow> fault + (LLVMValueRef \<times> CodeGen)" and
  gen_bool_or_expr :: "AstNode \<Rightarrow> CodeGen \<Rightarrow> fault + (LLVMValueRef \<times> CodeGen)" and
  gen_cmp_expr :: "AstNode \<Rightarrow> CodeGen \<Rightarrow> fault + (LLVMValueRef \<times> CodeGen)" and
  gen_arithmetic_bin_op_expr :: "AstNode \<Rightarrow> CodeGen \<Rightarrow> fault + (LLVMValueRef \<times> CodeGen)" and
  gen_prefix_op_expr :: "AstNode \<Rightarrow> CodeGen \<Rightarrow> fault + (LLVMValueRef \<times> CodeGen)" and
  gen_fn_call_expr :: "AstNode \<Rightarrow> CodeGen \<Rightarrow> fault + (LLVMValueRef \<times> CodeGen)" and
  gen_fn_call_params ::
    "AstNode list \<Rightarrow> bool \<Rightarrow> LLVMValueRef list \<Rightarrow> CodeGen \<Rightarrow> fault + (LLVMValueRef list \<times> CodeGen)" and
  gen_array_access_expr :: "AstNode \<Rightarrow> bool \<Rightarrow> CodeGen \<Rightarrow> fault + (LLVMValueRef \<times> CodeGen)" and
  gen_slice_expr :: "AstNode \<Rightarrow> CodeGen \<Rightarrow> fault + (LLVMValueRef \<times> CodeGen)" and
  gen_field_access_expr :: "AstNode \<Rightarrow> bool \<Rightarrow> CodeGen \<Rightarrow> fault + (LLVMValueRef \<times> CodeGen)" and
  gen_while_expr :: "AstNode \<Rightarrow> CodeGen \<Rightarrow> fault + (LLVMValueRef \<times> CodeGen)" and
  gen_lvalue ::
    "AstNode \<Rightarrow> AstNode \<Rightarrow> CodeGen \<Rightarrow> fault + ((LLVMValueRef \<times> TypeTableEntry) \<times> CodeGen)" and
  gen_array_ptr :: "AstNode \<Rightarrow> CodeGen \<Rightarrow> fault + (LLVMValueRef \<times> CodeGen)" and
  gen_array_base_ptr :: "AstNode \<Rightarrow> CodeGen \<Rightarrow> fault + (LLVMValueRef \<times> CodeGen)" and
  gen_field_ptr :: "AstNode \<Rightarrow> CodeGen \<Rightarrow> fault + ((LLVMValueRef \<times> TypeTableEntry) \<times> CodeGen)"
where
  "gen_expr node g =
     (case gen_expr_no_cast node g of
        Inl e \<Rightarrow> Inl e
      | Inr (val, g) \<Rightarrow> gen_expr_casts node val g)"

| "gen_expr_no_cast node g =
     (case node of
        NodeTypeBinOpExpr _ _ _ _ \<Rightarrow> gen_bin_op_expr node g
      | NodeTypePrefixOpExpr _ _ _ \<Rightarrow> gen_prefix_op_expr node g
      | NodeTypeFnCallExpr _ _ _ _ \<Rightarrow> gen_fn_call_expr node g
      | NodeTypeArrayAccessExpr _ _ _ \<Rightarrow> gen_array_access_expr node False g
      | NodeTypeSliceExpr _ _ _ _ _ \<Rightarrow> gen_slice_expr node g
      | NodeTypeFieldAccessExpr _ _ _ _ \<Rightarrow> gen_field_access_expr node False g
      | NodeTypeBoolLiteral _ v \<Rightarrow>
          (if v then Inr (LLVMConstAllOnes LLVMInt1Type, g)
           else Inr (LLVMConstNull LLVMInt1Type, g))
      | NodeTypeWhileExpr _ _ _ _ _ _ \<Rightarrow> gen_while_expr node g
      | NodeTypeSymbol _ _ _ \<Rightarrow> gen_symbol node g
      | NodeTypeBreak _ \<Rightarrow> gen_break node g
      | NodeTypeContinue _ \<Rightarrow> gen_continue node g)"

| "gen_bin_op_expr node g =
     (case node of
        NodeTypeBinOpExpr _ bin_op _ _ \<Rightarrow>
          (if bin_op = BinOpTypeInvalid then Inl Zig_panic
           else if bin_op \<in> {BinOpTypeAssign, BinOpTypeAssignTimes, BinOpTypeAssignDiv,
                   BinOpTypeAssignMod, BinOpTypeAssignPlus, BinOpTypeAssignMinus,
                   BinOpTypeAssignBitShiftLeft, BinOpTypeAssignBitShiftRight,
                   BinOpTypeAssignBitAnd, BinOpTypeAssignBitXor, BinOpTypeAssignBitOr,
                   BinOpTypeAssignBoolAnd, BinOpTypeAssignBoolOr} then gen_assign_expr node g
           else if bin_op = BinOpTypeBoolOr then gen_bool_or_expr node g
           else if bin_op = BinOpTypeBoolAnd then gen_bool_and_expr node g
           else if bin_op \<in> {BinOpTypeCmpEq, BinOpTypeCmpNotEq, BinOpTypeCmpLessThan,
                   BinOpTypeCmpGreaterThan, BinOpTypeCmpLessOrEq, BinOpTypeCmpGreaterOrEq} then
             gen_cmp_expr node g
           else if bin_op = BinOpTypeUnwrapMaybe then Inl Not_modelled
           else gen_arithmetic_bin_op_expr node g)
      | _ \<Rightarrow> Inl Undefined_behavior)"

| "gen_assign_expr node g =
     (case node of
        NodeTypeBinOpExpr _ bin_op lhs_node op2 \<Rightarrow>
          (case gen_lvalue node lhs_node g of
             Inl e \<Rightarrow> Inl e
           | Inr ((target_ref, op1_type), g) \<Rightarrow>
               let op2_type = get_expr_type op2 in
               (case gen_expr op2 g of
                  Inl e \<Rightarrow> Inl e
                | Inr (value, g) \<Rightarrow>
                    if size_in_bits op1_type = 0 then Inr (nullptr, g)
                    else gen_assign_raw node bin_op target_ref value op1_type op2_type g))
      | _ \<Rightarrow> Inl Assert_failed)"

| "gen_bool_and_expr node g =
     (case node of
        NodeTypeBinOpExpr _ _ op1 op2 \<Rightarrow>
          (case gen_expr op1 g of
             Inl e \<Rightarrow> Inl e
           | Inr (val1, g) \<Rightarrow>
               let post_val1_block = LLVMGetInsertBlock g in
               (case LLVMAppendBasicBlock ''BoolAndTrue'' g of (true_block, g) \<Rightarrow>
                (case LLVMAppendBasicBlock ''BoolAndFalse'' g of (false_block, g) \<Rightarrow>
                (case LLVMBuild (CondBr val1 true_block false_block) g of (_, g) \<Rightarrow>
                (case gen_expr op2 (LLVMPositionBuilderAtEnd true_block g) of
                   Inl e \<Rightarrow> Inl e
                 | Inr (val2, g) \<Rightarrow>
                     let post_val2_block = LLVMGetInsertBlock g in
                     (case LLVMBuild (Br false_block) g of (_, g) \<Rightarrow>
                      (case LLVMBuild (Phi LLVMInt1Type []) (LLVMPositionBuilderAtEnd false_block g) of
                         (phi, g) \<Rightarrow>
                           Inr (phi, LLVMAddIncoming phi
                                  [(val1, post_val1_block), (val2, post_val2_block)] g))))))))
      | _ \<Rightarrow> Inl Assert_failed)"

| "gen_bool_or_expr expr_node g =
     (case expr_node of
        NodeTypeBinOpExpr _ _ op1 op2 \<Rightarrow>
          (case gen_expr op1 g of
             Inl e \<Rightarrow> Inl e
           | Inr (val1, g) \<Rightarrow>
               let post_val1_block = LLVMGetInsertBlock g in
               (case LLVMAppendBasicBlock ''BoolOrFalse'' g of (false_block, g) \<Rightarrow>
                (case LLVMAppendBasicBlock ''BoolOrTrue'' g of (true_block, g) \<Rightarrow>
                (case LLVMBuild (CondBr val1 true_block false_block) g of (_, g) \<Rightarrow>
                (case gen_expr op2 (LLVMPositionBuilderAtEnd false_block g) of
                   Inl e \<Rightarrow> Inl e
                 | Inr (val2, g) \<Rightarrow>
                     let post_val2_block = LLVMGetInsertBlock g in
                     (case LLVMBuild (Br true_block) g of (_, g) \<Rightarrow>
                      (case LLVMBuild (Phi LLVMInt1Type []) (LLVMPositionBuilderAtEnd true_block g) of
                         (phi, g) \<Rightarrow>
                           Inr (phi, LLVMAddIncoming phi
                                  [(val1, post_val1_block), (val2, post_val2_block)] g))))))))
      | _ \<Rightarrow> Inl Assert_failed)"

| "gen_cmp_expr node g =
     (case node of
        NodeTypeBinOpExpr _ bin_op op1 op2 \<Rightarrow>
          (case gen_expr op1 g of
             Inl e \<Rightarrow> Inl e
           | Inr (val1, g) \<Rightarrow>
               (case gen_expr op2 g of
                  Inl e \<Rightarrow> Inl e
                | Inr (val2, g) \<Rightarrow>
                    let op1_type = get_expr_type op1;
                        op2_type = get_expr_type op2
                    in if op1_type \<noteq> op2_type then Inl Assert_failed
                       else if type_id op1_type = TypeTableEntryIdFloat then
                         (case cmp_op_to_real_predicate bin_op of
                            Inl e \<Rightarrow> Inl e
                          | Inr pred \<Rightarrow> Inr (LLVMBuild (FCmp pred val1 val2) g))
                       else if type_id op1_type = TypeTableEntryIdInt then
                         (case cmp_op_to_int_predicate bin_op (is_signed (type_data op1_type)) of
                            Inl e \<Rightarrow> Inl e
                          | Inr pred \<Rightarrow> Inr (LLVMBuild (ICmp pred val1 val2) g))
                       else if type_id op1_type = TypeTableEntryIdEnum then
                         (case cmp_op_to_int_predicate bin_op False of
                            Inl e \<Rightarrow> Inl e
                          | Inr pred \<Rightarrow> Inr (LLVMBuild (ICmp pred val1 val2) g))
                       else Inl Zig_panic))
      | _ \<Rightarrow> Inl Assert_failed)"

| "gen_arithmetic_bin_op_expr node g =
     (case node of
        NodeTypeBinOpExpr _ bin_op op1 op2 \<Rightarrow>
          (case gen_expr op1 g of
             Inl e \<Rightarrow> Inl e
           | Inr (val1, g) \<Rightarrow>
               (case gen_expr op2 g of
                  Inl e \<Rightarrow> Inl e
                | Inr (val2, g) \<Rightarrow>
                    gen_arithmetic_bin_op val1 val2 (get_expr_type op1) (get_expr_type op2) bin_op g))
      | _ \<Rightarrow> Inl Assert_failed)"

| "gen_prefix_op_expr node g =
     (case node of
        NodeTypePrefixOpExpr _ prefix_op expr_node \<Rightarrow>
          (case prefix_op of
             PrefixOpInvalid \<Rightarrow> Inl Zig_panic
           | PrefixOpNegation \<Rightarrow>
               (case gen_expr expr_node g of
                  Inl e \<Rightarrow> Inl e
                | Inr (expr, g) \<Rightarrow> Inr (LLVMBuild (Neg expr) g))
           | PrefixOpBoolNot \<Rightarrow>
               (case gen_expr expr_node g of
                  Inl e \<Rightarrow> Inl e
                | Inr (expr, g) \<Rightarrow>
                    let zero = LLVMConstNull (LLVMTypeOf expr) in
                    Inr (LLVMBuild (ICmp LLVMIntEQ expr zero) g))
           | PrefixOpBinNot \<Rightarrow>
               (case gen_expr expr_node g of
                  Inl e \<Rightarrow> Inl e
                | Inr (expr, g) \<Rightarrow> Inr (LLVMBuild (Not expr) g))
           | PrefixOpAddressOf \<Rightarrow>
               (case gen_lvalue node expr_node g of
                  Inl e \<Rightarrow> Inl e
                | Inr ((v, _), g) \<Rightarrow> Inr (v, g))
           | PrefixOpConstAddressOf \<Rightarrow>
               (case gen_lvalue node expr_node g of
                  Inl e \<Rightarrow> Inl e
                | Inr ((v, _), g) \<Rightarrow> Inr (v, g))
           | PrefixOpDereference \<Rightarrow>
               (case gen_expr expr_node g of
                  Inl e \<Rightarrow> Inl e
                | Inr (expr, g) \<Rightarrow> Inr (LLVMBuild (Load expr) g))
           | PrefixOpMaybe \<Rightarrow> Inl Zig_panic)
      | _ \<Rightarrow> Inl Assert_failed)"

| "gen_fn_call_expr node g =
     (case node of
        NodeTypeFnCallExpr _ fn_ref_expr params fn_table_entry \<Rightarrow>
          (case (case fn_ref_expr of
                   NodeTypeFieldAccessExpr _ first_param_expr _ _ \<Rightarrow>
                     let struct_type = get_expr_type first_param_expr in
                     if type_id struct_type = TypeTableEntryIdStruct then Inr (Some first_param_expr)
                     else if type_id struct_type = TypeTableEntryIdPointer then
                       (if type_id (pointer_child_type (type_data struct_type)) \<noteq> TypeTableEntryIdStruct
                        then Inl Assert_failed
                        else Inr (Some first_param_expr))
                     else if type_id struct_type = TypeTableEntryIdMetaType then Inl Not_modelled
                     else Inl Zig_panic
                 | _ \<Rightarrow> Inr None) of
             Inl e \<Rightarrow> Inl e
           | Inr first_param \<Rightarrow>
               (case (case fn_table_entry of
                        Some fn_table_entry \<Rightarrow>
                          Inr ((fn_value fn_table_entry, fn_type_entry fn_table_entry), g)
                      | None \<Rightarrow>
                          (case gen_expr fn_ref_expr g of
                             Inl e \<Rightarrow> Inl e
                           | Inr (fn_val, g) \<Rightarrow> Inr ((fn_val, get_expr_type fn_ref_expr), g))) of
                  Inl e \<Rightarrow> Inl e
                | Inr ((fn_val, fn_type), g) \<Rightarrow>
                    (case type_data fn_type of
                       DataFn expected_param_count is_var_args' return_type' cc \<Rightarrow>
                         let fn_call_param_count = length params;
                             actual_param_count =
                               fn_call_param_count + (if first_param \<noteq> None then 1 else 0)
                         in if \<not> ((is_var_args' \<and> actual_param_count \<ge> expected_param_count) \<or>
                                  actual_param_count = expected_param_count) then Inl Assert_failed
                            else
                              (case (case first_param of
                                       Some first_param_expr \<Rightarrow>
                                         (case gen_expr first_param_expr g of
                                            Inl e \<Rightarrow> Inl e
                                          | Inr (v, g) \<Rightarrow> Inr ([v], g))
                                     | None \<Rightarrow> Inr ([], g)) of
                                 Inl e \<Rightarrow> Inl e
                               | Inr (gen_param_values, g) \<Rightarrow>
                                   (case gen_fn_call_params params is_var_args' gen_param_values g of
                                      Inl e \<Rightarrow> Inl e
                                    | Inr (gen_param_values, g) \<Rightarrow>
                                        (case LLVMBuild (Call fn_val gen_param_values (Some cc)) g of
                                           (result, g) \<Rightarrow>
                                             if type_id return_type' = TypeTableEntryIdUnreachable
                                             then Inr (LLVMBuild Unreachable g)
                                             else Inr (result, g))))
                     | _ \<Rightarrow> Inl Undefined_behavior)))
      | _ \<Rightarrow> Inl Assert_failed)"

| "gen_fn_call_params params is_var_args' gen_param_values g =
     (case params of
        [] \<Rightarrow> Inr (gen_param_values, g)
      | expr_node # rest \<Rightarrow>
          (case gen_expr expr_node g of
             Inl e \<Rightarrow> Inl e
           | Inr (param_value, g) \<Rightarrow>
               let param_type = get_expr_type expr_node in
               if is_var_args' \<or> size_in_bits param_type > 0 then
                 gen_fn_call_params rest is_var_args' (gen_param_values @ [param_value]) g
               else gen_fn_call_params rest is_var_args' gen_param_values g))"

| "gen_array_access_expr node is_lvalue g =
     (case node of
        NodeTypeArrayAccessExpr _ array_ref_expr _ \<Rightarrow>
          (case gen_array_ptr node g of
             Inl e \<Rightarrow> Inl e
           | Inr (ptr, g) \<Rightarrow>
               let array_type = get_expr_type array_ref_expr in
               (case (if type_id array_type = TypeTableEntryIdPointer then
                        Inr (pointer_child_type (type_data array_type))
                      else if type_id array_type = TypeTableEntryIdStruct then
                        (if \<not> is_unknown_size_array (type_data array_type) then Inl Assert_failed
                         else
                           case structure_field0 array_type of
                             Inl e \<Rightarrow> Inl e
                           | Inr child_ptr_type \<Rightarrow>
                               if type_id child_ptr_type \<noteq> TypeTableEntryIdPointer then Inl Assert_failed
                               else Inr (pointer_child_type (type_data child_ptr_type)))
                      else if type_id array_type = TypeTableEntryIdArray then
                        Inr (array_child_type (type_data array_type))
                      else Inl Zig_panic) of
                  Inl e \<Rightarrow> Inl e
                | Inr child_type \<Rightarrow>
                    if is_lvalue \<or> ptr = nullptr \<or> handle_is_ptr child_type then Inr (ptr, g)
                    else Inr (LLVMBuild (Load ptr) g)))
      | _ \<Rightarrow> Inl Assert_failed)"

| "gen_slice_expr node g =
     (case node of
        NodeTypeSliceExpr _ array_ref_node start end' tmp_struct_ptr \<Rightarrow>
          let array_type = get_expr_type array_ref_node in
          (case gen_array_base_ptr array_ref_node g of
             Inl e \<Rightarrow> Inl e
           | Inr (array_ptr, g) \<Rightarrow>
               if type_id array_type = TypeTableEntryIdArray then
                 (case gen_expr start g of
                    Inl e \<Rightarrow> Inl e
                  | Inr (start_val, g) \<Rightarrow>
                      (case (case end' of
                               Some end_node \<Rightarrow> gen_expr end_node g
                             | None \<Rightarrow>
                                 Inr (LLVMConstInt (isize_type_ref g)
                                        (array_len (type_data array_type)) False, g)) of
                         Inl e \<Rightarrow> Inl e
                       | Inr (end_val, g) \<Rightarrow>
                           (case LLVMBuild (StructGEP tmp_struct_ptr 0) g of (ptr_field_ptr, g) \<Rightarrow>
                            (case LLVMBuild (InBoundsGEP array_ptr
                                    [LLVMConstNull (isize_type_ref g), start_val]) g of
                               (slice_start_ptr, g) \<Rightarrow>
                            (case LLVMBuild (Store slice_start_ptr ptr_field_ptr) g of (_, g) \<Rightarrow>
                            (case LLVMBuild (StructGEP tmp_struct_ptr 1) g of (len_field_ptr, g) \<Rightarrow>
                            (case LLVMBuild (BinaryOp LLVMSub end_val start_val) g of (len_value, g) \<Rightarrow>
                            (case LLVMBuild (Store len_value len_field_ptr) g of (_, g) \<Rightarrow>
                               Inr (tmp_struct_ptr, g)))))))))
               else if type_id array_type = TypeTableEntryIdPointer then
                 (case gen_expr start g of
                    Inl e \<Rightarrow> Inl e
                  | Inr (start_val, g) \<Rightarrow>
                      (case (case end' of
                               Some end_node \<Rightarrow> gen_expr end_node g
                             | None \<Rightarrow> Inl Undefined_behavior) of
                         Inl e \<Rightarrow> Inl e
                       | Inr (end_val, g) \<Rightarrow>
                           (case LLVMBuild (StructGEP tmp_struct_ptr 0) g of (ptr_field_ptr, g) \<Rightarrow>
                            (case LLVMBuild (InBoundsGEP array_ptr [start_val]) g of
                               (slice_start_ptr, g) \<Rightarrow>
                            (case LLVMBuild (Store slice_start_ptr ptr_field_ptr) g of (_, g) \<Rightarrow>
                            (case LLVMBuild (StructGEP tmp_struct_ptr 1) g of (len_field_ptr, g) \<Rightarrow>
                            (case LLVMBuild (BinaryOp LLVMSub end_val start_val) g of (len_value, g) \<Rightarrow>
                            (case LLVMBuild (Store len_value len_field_ptr) g of (_, g) \<Rightarrow>
                               Inr (tmp_struct_ptr, g)))))))))
               else if type_id array_type = TypeTableEntryIdStruct then
                 (if \<not> is_unknown_size_array (type_data array_type) then Inl Assert_failed
                  else
                    case gen_expr start g of
                      Inl e \<Rightarrow> Inl e
                    | Inr (start_val, g) \<Rightarrow>
                        (case (case end' of
                                 Some end_node \<Rightarrow> gen_expr end_node g
                               | None \<Rightarrow>
                                   (case LLVMBuild (StructGEP array_ptr 1) g of (src_len_ptr, g) \<Rightarrow>
                                      Inr (LLVMBuild (Load src_len_ptr) g))) of
                           Inl e \<Rightarrow> Inl e
                         | Inr (end_val, g) \<Rightarrow>
                             (case LLVMBuild (StructGEP array_ptr 0) g of (src_ptr_ptr, g) \<Rightarrow>
                              (case LLVMBuild (Load src_ptr_ptr) g of (src_ptr, g) \<Rightarrow>
                              (case LLVMBuild (StructGEP tmp_struct_ptr 0) g of (ptr_field_ptr, g) \<Rightarrow>
                              (case LLVMBuild (InBoundsGEP src_ptr [start_val]) g of
                                 (slice_start_ptr, g) \<Rightarrow>
                              (case LLVMBuild (Store slice_start_ptr ptr_field_ptr) g of (_, g) \<Rightarrow>
                              (case LLVMBuild (StructGEP tmp_struct_ptr 1) g of (len_field_ptr, g) \<Rightarrow>
                              (case LLVMBuild (BinaryOp LLVMSub end_val start_val) g of
                                 (len_value, g) \<Rightarrow>
                              (case LLVMBuild (Store len_value len_field_ptr) g of (_, g) \<Rightarrow>
                                 Inr (tmp_struct_ptr, g)))))))))))
               else Inl Zig_panic)
      | _ \<Rightarrow> Inl Assert_failed)"

| "gen_field_access_expr node is_lvalue g =
     (case node of
        NodeTypeFieldAccessExpr _ struct_expr name _ \<Rightarrow>
          let struct_type = get_expr_type struct_expr in
          if type_id struct_type = TypeTableEntryIdArray then
            (if name = ''len'' then
               Inr (LLVMConstInt (isize_type_ref g) (array_len (type_data struct_type)) False, g)
             else if name = ''ptr'' then
               (case gen_expr struct_expr g of
                  Inl e \<Rightarrow> Inl e
                | Inr (array_val, g) \<Rightarrow>
                    Inr (LLVMBuild (InBoundsGEP array_val
                           [LLVMConstNull (isize_type_ref g), LLVMConstNull (isize_type_ref g)]) g))
             else Inl Zig_panic)
          else if type_id struct_type = TypeTableEntryIdStruct \<or>
                  (type_id struct_type = TypeTableEntryIdPointer \<and>
                   type_id (pointer_child_type (type_data struct_type)) = TypeTableEntryIdStruct) then
            (case gen_field_ptr node g of
               Inl e \<Rightarrow> Inl e
             | Inr ((ptr, _), g) \<Rightarrow>
                 if is_lvalue then Inr (ptr, g) else Inr (LLVMBuild (Load ptr) g))
          else if type_id struct_type = TypeTableEntryIdMetaType then
            (if is_lvalue then Inl Assert_failed else Inl Not_modelled)
          else Inl Zig_panic
      | _ \<Rightarrow> Inl Assert_failed)"

| "gen_while_expr node g =
     (case node of
        NodeTypeWhileExpr _ condition body condition_always_true contains_break block_context \<Rightarrow>
          let old_block_context = cur_block_context g in
          if condition_always_true then
            (let g = g\<lparr>cur_block_context := block_context\<rparr> in
             case LLVMAppendBasicBlock ''WhileBody'' g of (body_block, g) \<Rightarrow>
             (case (if contains_break then
                      (case LLVMAppendBasicBlock ''WhileEnd'' g of (b, g) \<Rightarrow> (Some b, g))
                    else (None, g)) of
                (end_block, g) \<Rightarrow>
             (case LLVMBuild (Br body_block) g of (_, g) \<Rightarrow>
             (let g = LLVMPositionBuilderAtEnd body_block g;
                  g = g\<lparr>break_block_stack := break_block_stack g @ [end_block]\<rparr>;
                  g = g\<lparr>continue_block_stack := continue_block_stack g @ [body_block]\<rparr>
              in case gen_expr body g of
                   Inl e \<Rightarrow> Inl e
                 | Inr (_, g) \<Rightarrow>
                     if break_block_stack g = [] \<or> continue_block_stack g = [] then Inl Assert_failed
                     else
                       let g = g\<lparr>break_block_stack := butlast (break_block_stack g)\<rparr>;
                           g = g\<lparr>continue_block_stack := butlast (continue_block_stack g)\<rparr>;
                           g = (if type_id (get_expr_type body) \<noteq> TypeTableEntryIdUnreachable
                                then snd (LLVMBuild (Br body_block) g) else g);
                           g = (case end_block of
                                  Some end_block \<Rightarrow> LLVMPositionBuilderAtEnd end_block g
                                | None \<Rightarrow> g)
                       in Inr (nullptr, g\<lparr>cur_block_context := old_block_context\<rparr>)))))
          else
            (case LLVMAppendBasicBlock ''WhileCond'' g of (cond_block, g) \<Rightarrow>
             (case LLVMAppendBasicBlock ''WhileBody'' g of (body_block, g) \<Rightarrow>
             (case LLVMAppendBasicBlock ''WhileEnd'' g of (end_block, g) \<Rightarrow>
             (case LLVMBuild (Br cond_block) g of (_, g) \<Rightarrow>
             (let g = LLVMPositionBuilderAtEnd cond_block g;
                  g = g\<lparr>cur_block_context := old_block_context\<rparr>
              in case gen_expr condition g of
                   Inl e \<Rightarrow> Inl e
                 | Inr (cond_val, g) \<Rightarrow>
                     (case LLVMBuild (CondBr cond_val body_block end_block) g of (_, g) \<Rightarrow>
                      (let g = LLVMPositionBuilderAtEnd body_block g;
                           g = g\<lparr>break_block_stack := break_block_stack g @ [Some end_block]\<rparr>;
                           g = g\<lparr>continue_block_stack := continue_block_stack g @ [cond_block]\<rparr>;
                           g = g\<lparr>cur_block_context := block_context\<rparr>
                       in case gen_expr body g of
                            Inl e \<Rightarrow> Inl e
                          | Inr (_, g) \<Rightarrow>
                              if break_block_stack g = [] \<or> continue_block_stack g = [] then
                                Inl Assert_failed
                              else
                                let g = g\<lparr>break_block_stack := butlast (break_block_stack g)\<rparr>;
                                    g = g\<lparr>continue_block_stack := butlast (continue_block_stack g)\<rparr>;
                                    g = (if type_id (get_expr_type body) \<noteq> TypeTableEntryIdUnreachable
                                         then snd (LLVMBuild (Br cond_block) g) else g);
                                    g = LLVMPositionBuilderAtEnd end_block g
                                in Inr (nullptr, g\<lparr>cur_block_context := old_block_context\<rparr>))))))))
      | _ \<Rightarrow> Inl Assert_failed)"

| "gen_lvalue expr_node node g =
     (case node of
        NodeTypeSymbol _ var _ \<Rightarrow>
          (case var of
             None \<Rightarrow> Inl Assert_failed
           | Some var \<Rightarrow>
               if var_is_const var then Inl Assert_failed
               else Inr ((value_ref var, var_type var), g))
      | NodeTypeArrayAccessExpr _ array_ref_expr _ \<Rightarrow>
          let array_type = get_expr_type array_ref_expr in
          (case (if type_id array_type = TypeTableEntryIdArray then
                   Inr (array_child_type (type_data array_type))
                 else if type_id array_type = TypeTableEntryIdPointer then
                   Inr (pointer_child_type (type_data array_type))
                 else if type_id array_type = TypeTableEntryIdStruct then
                   (if \<not> is_unknown_size_array (type_data array_type) then Inl Assert_failed
                    else
                      case structure_field0 array_type of
                        Inl e \<Rightarrow> Inl e
                      | Inr f \<Rightarrow>
                          (case type_data f of
                             DataPointer child _ \<Rightarrow> Inr child
                           | _ \<Rightarrow> Inl Undefined_behavior))
                 else Inl Zig_panic) of
             Inl e \<Rightarrow> Inl e
           | Inr out_type_entry \<Rightarrow>
               (case gen_array_ptr node g of
                  Inl e \<Rightarrow> Inl e
                | Inr (target_ref, g) \<Rightarrow> Inr ((target_ref, out_type_entry), g)))
      | NodeTypeFieldAccessExpr _ _ _ _ \<Rightarrow> gen_field_ptr node g
      | NodeTypePrefixOpExpr _ prefix_op target_expr \<Rightarrow>
          if prefix_op \<noteq> PrefixOpDereference then Inl Assert_failed
          else
            let type_entry' = get_expr_type target_expr in
            if type_id type_entry' \<noteq> TypeTableEntryIdPointer then Inl Assert_failed
            else
              (case gen_expr target_expr g of
                 Inl e \<Rightarrow> Inl e
               | Inr (target_ref, g) \<Rightarrow>
                   Inr ((target_ref, pointer_child_type (type_data type_entry')), g))
      | _ \<Rightarrow> Inl Zig_panic)"

| "gen_array_ptr node g =
     (case node of
        NodeTypeArrayAccessExpr _ array_expr_node subscript \<Rightarrow>
          let array_type = get_expr_type array_expr_node in
          (case gen_array_base_ptr array_expr_node g of
             Inl e \<Rightarrow> Inl e
           | Inr (array_ptr, g) \<Rightarrow>
               (case gen_expr subscript g of
                  Inl e \<Rightarrow> Inl e
                | Inr (subscript_value, g) \<Rightarrow>
                    gen_array_elem_ptr array_ptr array_type subscript_value g))
      | _ \<Rightarrow> Inl Assert_failed)"

| "gen_array_base_ptr node g =
     (let type_entry' = get_expr_type node in
      case node of
        NodeTypeFieldAccessExpr _ _ _ _ \<Rightarrow>
          (case gen_field_access_expr node True g of
             Inl e \<Rightarrow> Inl e
           | Inr (array_ptr, g) \<Rightarrow>
               if type_id type_entry' = TypeTableEntryIdPointer then
                 Inr (LLVMBuild (Load array_ptr) g)
               else Inr (array_ptr, g))
      | _ \<Rightarrow> gen_expr node g)"

| "gen_field_ptr node g =
     (case node of
        NodeTypeFieldAccessExpr _ struct_expr_node _ type_struct_field \<Rightarrow>
          (case (case struct_expr_node of
                   NodeTypeSymbol _ var _ \<Rightarrow>
                     (case var of
                        None \<Rightarrow> Inl Assert_failed
                      | Some var \<Rightarrow>
                          if is_ptr var \<and> type_id (var_type var) = TypeTableEntryIdPointer then
                            Inr (LLVMBuild (Load (value_ref var)) g)
                          else Inr (value_ref var, g))
                 | NodeTypeFieldAccessExpr _ _ _ _ \<Rightarrow>
                     (case gen_field_access_expr struct_expr_node True g of
                        Inl e \<Rightarrow> Inl e
                      | Inr (struct_ptr, g) \<Rightarrow>
                          let field_type = get_expr_type struct_expr_node in
                          if type_id field_type = TypeTableEntryIdPointer then
                            Inr (LLVMBuild (Load struct_ptr) g)
                          else Inr (struct_ptr, g))
                 | _ \<Rightarrow> gen_expr struct_expr_node g) of
             Inl e \<Rightarrow> Inl e
           | Inr (struct_ptr, g) \<Rightarrow>
               (case type_struct_field of
                  None \<Rightarrow> Inl Undefined_behavior
                | Some type_struct_field \<Rightarrow>
                    if gen_index type_struct_field < 0 then Inl Assert_failed
                    else
                      (case LLVMBuild (StructGEP struct_ptr (nat (gen_index type_struct_field))) g of
                         (v, g) \<Rightarrow> Inr ((v, field_type_entry type_struct_field), g))))
      | _ \<Rightarrow> Inl Assert_failed)"
  by pat_completeness auto

termination
  apply (relation "measure
    (case_sum
      (case_sum
        (case_sum
          (case_sum
            (\<lambda>(node, g). 32 * size node + 19)
            (\<lambda>(node, g). 32 * size node + 18))
          (case_sum
            (\<lambda>(node, g). 32 * size node + 17)
            (\<lambda>(node, g). 32 * size node + 16)))
        (case_sum
          (case_sum
            (\<lambda>(node, g). 32 * size node + 16)
            (\<lambda>(node, g). 32 * size node + 16))
          (case_sum
            (\<lambda>(node, g). 32 * size node + 16)
            (case_sum
              (\<lambda>(node, g). 32 * size node + 16)
              (\<lambda>(node, g). 32 * size node + 17)))))
      (case_sum
        (case_sum
          (case_sum
            (\<lambda>(node, g). 32 * size node + 17)
            (\<lambda>(params, v, acc, g). 32 * size_list size params))
          (case_sum
            (\<lambda>(node, b, g). 32 * size node + 17)
            (case_sum
              (\<lambda>(node, g). 32 * size node + 17)
              (\<lambda>(node, b, g). 32 * size node + 17))))
        (case_sum
          (case_sum
            (\<lambda>(node, g). 32 * size node + 17)
            (\<lambda>(expr_node, node, g). 32 * size node + 10))
          (case_sum
            (\<lambda>(node, g). 32 * size node + 5)
            (case_sum
              (\<lambda>(node, g). 32 * size node + 20)
              (\<lambda>(node, g). 32 * size node + 5))))))")
  apply simp_all
  apply (auto split: AstNode.splits if_splits simp: Let_def)
  done

section \<open>What lowering leaves unchanged\<close>

text \<open>
  The builder is positioned when its insertion block is a block of the function.
  A state extends another when blocks were only appended, every earlier block kept its
  name, the earlier insertion block kept its instructions as a prefix, every other
  earlier block is unchanged, the insertion block is the earlier one or a new one, and
  the constants of the module are the same.
\<close>

definition positioned :: "CodeGen \<Rightarrow> bool" where
  "positioned g \<longleftrightarrow> insert_block g < length (blocks g)"

definition extends :: "CodeGen \<Rightarrow> CodeGen \<Rightarrow> bool" where
  "extends g g' \<longleftrightarrow>
     positioned g \<and> positioned g' \<and>
     length (blocks g) \<le> length (blocks g') \<and>
     (insert_block g' = insert_block g \<or> length (blocks g) \<le> insert_block g') \<and>
     (\<forall>b < length (blocks g).
        fst (blocks g' ! b) = fst (blocks g ! b) \<and>
        (if b = insert_block g then prefix (snd (blocks g ! b)) (snd (blocks g' ! b))
         else snd (blocks g' ! b) = snd (blocks g ! b))) \<and>
     isize_type_ref g' = isize_type_ref g \<and>
     memcpy_fn_val g' = memcpy_fn_val g \<and>
     pointer_size_bytes g' = pointer_size_bytes g"

(*PROPERTIES*)

section \<open>Properties of the bignum kernel\<close>

declare bignum_add.simps [simp del]

lemma and_then_Inr [simp]: "and_then (Inr x) f = f x"
  by (simp add: and_then_def)
lemma and_then_Inl [simp]: "and_then (Inl e) f = Inl e"
  by (simp add: and_then_def)

lemma bignum_normalize_int:
  "kind bn = BigNumKindInt \<Longrightarrow>
   bignum_normalize bn = Inr (bn\<lparr>is_negative := is_negative bn \<and> x_uint bn \<noteq> 0\<rparr>)"
  by (cases "is_negative bn") (simp_all add: bignum_normalize_def)

lemma uadd_no_overflow_zero:
  fixes a b :: "64 word"
  assumes "\<not> snd (uaddll_overflow a b)" and "fst (uaddll_overflow a b) = 0"
  shows "a = 0 \<and> b = 0"
proof -
  from assms(1) have "unat a + unat b < 2 ^ 64"
    by (simp add: uaddll_overflow_def)
  then have "unat (a + b) = unat a + unat b"
    by (simp add: unat_add_lem [THEN iffD1])
  moreover from assms(2) have "a + b = 0"
    by (simp add: uaddll_overflow_def)
  ultimately show ?thesis
    by (simp add: unat_eq_0)
qed

lemma neg_sub_word: "UINT64_MAX - (p - n) + 1 = n - p"
  by (simp add: UINT64_MAX_def)

lemma bignum_add_same_sign:
  assumes "kind op1 = BigNumKindInt" "kind op2 = BigNumKindInt"
    and "is_negative op1 = is_negative op2"
  shows "bignum_add fp dest op1 op2 =
           Inr (snd (uaddll_overflow (x_uint op1) (x_uint op2)),
                dest\<lparr>kind := BigNumKindInt, is_negative := is_negative op1,
                     data := fst (uaddll_overflow (x_uint op1) (x_uint op2))\<rparr>)"
  using assms by (subst bignum_add.simps) (simp add: Let_def)

lemma bignum_add_pos_neg:
  assumes "kind op1 = BigNumKindInt" "kind op2 = BigNumKindInt"
    and "\<not> is_negative op1" "is_negative op2"
  shows "bignum_add fp dest op1 op2 =
           Inr (False,
                if x_uint op1 < x_uint op2
                then dest\<lparr>kind := BigNumKindInt, data := x_uint op2 - x_uint op1, is_negative := True\<rparr>
                else dest\<lparr>kind := BigNumKindInt, data := x_uint op1 - x_uint op2,
                       is_negative := is_negative dest \<and> x_uint op1 \<noteq> x_uint op2\<rparr>)"
  using assms
  by (subst bignum_add.simps)
     (simp add: Let_def usubll_overflow_def bignum_normalize_int neg_sub_word)

lemma bignum_add_neg_pos:
  assumes "kind op1 = BigNumKindInt" "kind op2 = BigNumKindInt"
    and "is_negative op1" "\<not> is_negative op2"
  shows "bignum_add fp dest op1 op2 = bignum_add fp (dest\<lparr>kind := BigNumKindInt\<rparr>) op2 op1"
  using assms by (subst bignum_add.simps) (simp add: Let_def)

lemma bignum_add_int:
  assumes "kind op1 = BigNumKindInt" "kind op2 = BigNumKindInt"
  shows "\<exists>f d. bignum_add fp dest op1 op2 = Inr (f, d) \<and> kind d = BigNumKindInt \<and>
           (f \<longrightarrow> is_negative op1 = is_negative op2) \<and>
           (normalized op1 \<longrightarrow> normalized op2 \<longrightarrow> \<not> f \<longrightarrow> normalized d)"
proof (cases "is_negative op1 = is_negative op2")
  case True
  define r where "r = uaddll_overflow (x_uint op1) (x_uint op2)"
  define d where "d = dest\<lparr>kind := BigNumKindInt, is_negative := is_negative op1, data := fst r\<rparr>"
  have eq: "bignum_add fp dest op1 op2 = Inr (snd r, d)"
    unfolding r_def d_def by (rule bignum_add_same_sign [OF assms True])
  have "normalized d" if n: "normalized op1" and f: "\<not> snd r"
  proof (cases "fst r = 0")
    case True
    with f have "x_uint op1 = 0"
      using uadd_no_overflow_zero [of "x_uint op1" "x_uint op2"] by (simp add: r_def)
    with n have "\<not> is_negative op1" by (simp add: normalized_def)
    then show ?thesis by (simp add: normalized_def d_def)
  next
    case False
    then show ?thesis by (simp add: normalized_def d_def)
  qed
  moreover have "kind d = BigNumKindInt" by (simp add: d_def)
  ultimately show ?thesis using eq True by blast
next
  case False
  have pn: "\<exists>d. bignum_add fp dst p n = Inr (False, d) \<and> kind d = BigNumKindInt \<and> normalized d"
    if "kind p = BigNumKindInt" "kind n = BigNumKindInt" "\<not> is_negative p" "is_negative n"
    for p n dst
    unfolding bignum_add_pos_neg [OF that] by (auto simp: normalized_def)
  show ?thesis
  proof (cases "is_negative op1")
    case True
    with False have n2: "\<not> is_negative op2" by simp
    from pn [OF assms(2) assms(1) n2 True, of "dest\<lparr>kind := BigNumKindInt\<rparr>"]
    show ?thesis
      unfolding bignum_add_neg_pos [OF assms True n2] by blast
  next
    case f: False
    with False have "is_negative op2" by simp
    from pn [OF assms f this, of dest] show ?thesis by blast
  qed
qed

lemma bignum_negate_int:
  "kind op = BigNumKindInt \<Longrightarrow>
   bignum_negate fp dest op =
     Inr (dest\<lparr>kind := BigNumKindInt, data := x_uint op, is_negative := \<not> is_negative op \<and> x_uint op \<noteq> 0\<rparr>)"
  by (simp add: bignum_negate_def Let_def bignum_normalize_int)

lemma bignum_mul_int:
  "kind op1 = BigNumKindInt \<Longrightarrow> kind op2 = BigNumKindInt \<Longrightarrow>
   bignum_mul fp dest op1 op2 =
     (if 2 ^ 64 \<le> unat (x_uint op1) * unat (x_uint op2)
      then Inr (True, dest\<lparr>kind := BigNumKindInt, data := x_uint op1 * x_uint op2\<rparr>)
      else Inr (False, dest\<lparr>kind := BigNumKindInt, data := x_uint op1 * x_uint op2,
                  is_negative := is_negative op1 \<noteq> is_negative op2 \<and> x_uint op1 * x_uint op2 \<noteq> 0\<rparr>))"
  by (simp add: bignum_mul_def umulll_overflow_def Let_def bignum_normalize_int)

lemma bignum_div_int:
  "kind op1 = BigNumKindInt \<Longrightarrow> kind op2 = BigNumKindInt \<Longrightarrow> x_uint op2 \<noteq> 0 \<Longrightarrow>
   bignum_div fp dest op1 op2 =
     Inr (False, dest\<lparr>kind := BigNumKindInt, data := x_uint op1 div x_uint op2,
            is_negative := is_negative op1 \<noteq> is_negative op2 \<and> x_uint op1 div x_uint op2 \<noteq> 0\<rparr>)"
  by (simp add: bignum_div_def Let_def bignum_normalize_int)

lemma bignum_rem_int:
  "kind op1 = BigNumKindInt \<Longrightarrow> kind op2 = BigNumKindInt \<Longrightarrow>
   \<not> is_negative op1 \<Longrightarrow> \<not> is_negative op2 \<Longrightarrow> x_uint op2 \<noteq> 0 \<Longrightarrow>
   bignum_rem fp dest op1 op2 =
     Inr (False, dest\<lparr>kind := BigNumKindInt, data := x_uint op1 mod x_uint op2,
            is_negative := is_negative dest \<and> x_uint op1 mod x_uint op2 \<noteq> 0\<rparr>)"
  by (simp add: bignum_rem_def Let_def bignum_normalize_int)


lemma bignum_sub_int:
  assumes "kind op1 = BigNumKindInt" "kind op2 = BigNumKindInt"
  shows "\<exists>f d. bignum_sub fp tmp dest op1 op2 = Inr (f, d) \<and> kind d = BigNumKindInt \<and>
           (normalized op1 \<longrightarrow> \<not> f \<longrightarrow> normalized d)"
proof -
  define n where "n = tmp\<lparr>kind := BigNumKindInt, data := x_uint op2,
     is_negative := \<not> is_negative op2 \<and> x_uint op2 \<noteq> 0\<rparr>"
  have n: "normalized n" "kind n = BigNumKindInt"
    by (auto simp: normalized_def n_def)
  have sub: "bignum_sub fp tmp dest op1 op2 = bignum_add fp dest op1 n"
    by (simp add: bignum_sub_def bignum_negate_int [OF assms(2)] n_def)
  from bignum_add_int [OF assms(1) n(2), of fp dest] n(1) show ?thesis
    unfolding sub by blast
qed

lemma bignum_sub_self:
  assumes "kind a = BigNumKindInt"
  shows "bignum_sub fp tmp dest a a =
           Inr (False, dest\<lparr>kind := BigNumKindInt, is_negative := False, data := 0\<rparr>)"
proof -
  define n where "n = tmp\<lparr>kind := BigNumKindInt, data := x_uint a,
     is_negative := \<not> is_negative a \<and> x_uint a \<noteq> 0\<rparr>"
  have n: "kind n = BigNumKindInt" "x_uint n = x_uint a"
    "is_negative n = (\<not> is_negative a \<and> x_uint a \<noteq> 0)"
    by (simp_all add: n_def)
  have sub: "bignum_sub fp tmp dest a a = bignum_add fp dest a n"
    by (simp add: bignum_sub_def bignum_negate_int [OF assms] n_def)
  consider (zero_pos) "x_uint a = 0" "\<not> is_negative a"
    | (zero_neg) "x_uint a = 0" "is_negative a"
    | (pos) "x_uint a \<noteq> 0" "\<not> is_negative a"
    | (neg) "x_uint a \<noteq> 0" "is_negative a"
    by blast
  then show ?thesis
  proof cases
    case zero_pos
    then have "is_negative a = is_negative n" by (simp add: n)
    from bignum_add_same_sign [OF assms n(1) this] zero_pos show ?thesis
      by (simp add: sub n uaddll_overflow_def)
  next
    case zero_neg
    then have s: "is_negative a" "\<not> is_negative n" by (simp_all add: n)
    show ?thesis
      unfolding sub bignum_add_neg_pos [OF assms n(1) s]
        bignum_add_pos_neg [OF n(1) assms s(2) s(1)]
      using zero_neg by (simp add: n)
  next
    case pos
    then have s: "\<not> is_negative a" "is_negative n" by (simp_all add: n)
    show ?thesis
      unfolding sub bignum_add_pos_neg [OF assms n(1) s]
      by (simp add: n)
  next
    case neg
    then have s: "is_negative a" "\<not> is_negative n" by (simp_all add: n)
    show ?thesis
      unfolding sub bignum_add_neg_pos [OF assms n(1) s]
        bignum_add_pos_neg [OF n(1) assms s(2) s(1)]
      by (simp add: n)
  qed
qed

declare u64_log2_loop.simps [simp del]

lemma u64_log2_loop_zero: "u64_log2_loop 0 result = result"
  by (subst u64_log2_loop.simps) simp

lemma u64_log2_loop_step:
  "x \<noteq> 0 \<Longrightarrow> u64_log2_loop x result = u64_log2_loop (drop_bit 1 x) (result + 1)"
  by (subst u64_log2_loop.simps) simp

lemma u64_log2_loop_ge: "result \<le> u64_log2_loop x result"
proof (induction x result rule: u64_log2_loop.induct)
  case (1 x result)
  show ?case
  proof (cases "x = 0")
    case True
    then show ?thesis by (simp add: u64_log2_loop_zero)
  next
    case False
    with 1 have "result + 1 \<le> u64_log2_loop (drop_bit 1 x) (result + 1)" by simp
    with False show ?thesis by (simp add: u64_log2_loop_step)
  qed
qed

lemma u64_log2_loop_le_iff:
  "(u64_log2_loop x result \<le> result + k) = (unat x < 2 ^ k)"
proof (induction x result arbitrary: k rule: u64_log2_loop.induct)
  case (1 x result)
  show ?case
  proof (cases "x = 0")
    case True
    then show ?thesis by (simp add: u64_log2_loop_zero)
  next
    case False
    note nz = this
    show ?thesis
    proof (cases k)
      case 0
      from nz have "0 < unat x" by (simp add: unat_gt_0)
      moreover from u64_log2_loop_ge [of "result + 1" "drop_bit 1 x"]
      have "result < u64_log2_loop (drop_bit 1 x) (result + 1)" by simp
      ultimately show ?thesis using nz 0 by (simp add: u64_log2_loop_step)
    next
      case (Suc k')
      from 1 [OF nz, of k']
      have "(u64_log2_loop (drop_bit 1 x) (result + 1) \<le> result + Suc k') = (unat (drop_bit 1 x) < 2 ^ k')"
        by simp
      moreover have "unat (drop_bit 1 x) = unat x div 2"
        by (simp add: drop_bit_eq_div unat_div)
      moreover have "(unat x div 2 < 2 ^ k') = (unat x < 2 ^ Suc k')"
        by auto
      ultimately show ?thesis using nz Suc by (simp add: u64_log2_loop_step)
    qed
  qed
qed

lemma u64_log2_le_iff: "(u64_log2 x \<le> k) = (unat x < 2 ^ k)"
  using u64_log2_loop_le_iff [of x 0 k] by (simp add: u64_log2_def)

lemma unat_2p_64: "k < 64 \<Longrightarrow> unat (2 ^ k :: 64 word) = 2 ^ k"
proof -
  assume k: "k < 64"
  have lt: "(2 ^ k :: nat) < 2 ^ LENGTH(64)"
    using k by (intro power_strict_increasing) simp_all
  have "word_of_nat (2 ^ k) = (2 ^ k :: 64 word)"
    by simp
  then show ?thesis
    using lt by (rule of_nat_inverse)
qed

lemma fits_signed_small:
  fixes x :: "64 word"
  assumes "k < 64"
  shows "(x \<le> 2 ^ k) = (unat x \<le> 2 ^ k)"
    and "(x \<le> 2 ^ k - 1) = (unat x \<le> 2 ^ k - 1)"
proof -
  from assms have p: "unat (2 ^ k :: 64 word) = 2 ^ k"
    by (rule unat_2p_64)
  then show "(x \<le> 2 ^ k) = (unat x \<le> 2 ^ k)"
    by (simp add: word_le_nat_alt)
  have "(1 :: 64 word) \<le> 2 ^ k"
    using p by (simp add: word_le_nat_alt)
  then have "unat (2 ^ k - 1 :: 64 word) = 2 ^ k - 1"
    using p by (simp add: unat_sub)
  then show "(x \<le> 2 ^ k - 1) = (unat x \<le> 2 ^ k - 1)"
    by (simp add: word_le_nat_alt)
qed

lemma fits_signed:
  assumes "kind a = BigNumKindInt" and "1 \<le> n"
  shows "bignum_fits_in_bits a n True =
           Inr (if is_negative a then unat (x_uint a) \<le> 2 ^ (nat (min n 64) - 1)
                else unat (x_uint a) \<le> 2 ^ (nat (min n 64) - 1) - 1)"
proof (cases "n < 64")
  case True
  define k where "k = nat (n - 1)"
  from True assms(2) have k: "k < 64" and m: "nat (min n 64) - 1 = k"
    by (auto simp: k_def)
  from assms True have "bignum_fits_in_bits a n True =
      Inr (x_uint a \<le> (if is_negative a then 2 ^ k else 2 ^ k - 1))"
    by (simp add: bignum_fits_in_bits_def Let_def k_def)
  then show ?thesis
    unfolding m by (simp add: fits_signed_small [OF k])
next
  case False
  then have m: "nat (min n 64) - 1 = 63"
    by auto
  from assms False have "bignum_fits_in_bits a n True =
      Inr (x_uint a \<le> (if is_negative a then 0x8000000000000000 else 0x7FFFFFFFFFFFFFFF))"
    by (simp add: bignum_fits_in_bits_def Let_def INT64_MAX_def)
  then show ?thesis
    unfolding m by (simp add: word_le_nat_alt)
qed

lemma fits_unsigned:
  assumes "kind a = BigNumKindInt"
  shows "bignum_fits_in_bits a n False =
           Inr (if is_negative a then x_uint a = 0
                else 0 \<le> n \<and> unat (x_uint a) < 2 ^ nat n)"
proof (cases "0 \<le> n")
  case True
  then have "(int (u64_log2 (x_uint a)) \<le> n) = (u64_log2 (x_uint a) \<le> nat n)"
    by auto
  with assms True show ?thesis
    by (simp add: bignum_fits_in_bits_def Let_def u64_log2_le_iff)
next
  case False
  then have "\<not> int (u64_log2 (x_uint a)) \<le> n"
    by auto
  with assms False show ?thesis
    by (simp add: bignum_fits_in_bits_def Let_def)
qed

lemma bignum_add_mixed_exact:
  assumes "kind a = BigNumKindInt" "kind b = BigNumKindInt"
    and "is_negative a \<noteq> is_negative b" and "\<not> is_negative dest"
  shows "\<exists>d. bignum_add fp dest a b = Inr (False, d) \<and>
              int_of_bignum d = int_of_bignum a + int_of_bignum b"
proof -
  have pn: "\<exists>d. bignum_add fp dst p n = Inr (False, d) \<and>
              int_of_bignum d = int_of_bignum p + int_of_bignum n"
    if "kind p = BigNumKindInt" "kind n = BigNumKindInt" "\<not> is_negative p" "is_negative n"
      "\<not> is_negative dst"
    for p n dst
  proof (cases "x_uint p < x_uint n")
    case True
    then have "uint (x_uint n - x_uint p) = uint (x_uint n) - uint (x_uint p)"
      by (simp add: uint_sub_lem [THEN iffD1] word_less_def)
    with True that show ?thesis
      unfolding bignum_add_pos_neg [OF that(1-4)] by (simp add: int_of_bignum_def)
  next
    case False
    then have "uint (x_uint p - x_uint n) = uint (x_uint p) - uint (x_uint n)"
      by (simp add: uint_sub_lem [THEN iffD1] word_le_def not_less)
    with False that show ?thesis
      unfolding bignum_add_pos_neg [OF that(1-4)] by (simp add: int_of_bignum_def)
  qed
  show ?thesis
  proof (cases "is_negative a")
    case True
    with assms(3) have nb: "\<not> is_negative b" by simp
    from pn [OF assms(2) assms(1) nb True, of "dest\<lparr>kind := BigNumKindInt\<rparr>"] assms(4)
    show ?thesis
      unfolding bignum_add_neg_pos [OF assms(1,2) True nb] by (auto simp: add.commute)
  next
    case False
    with assms(3) have "is_negative b" by simp
    from pn [OF assms(1,2) False this assms(4)] show ?thesis .
  qed
qed

section \<open>Claims about the bignum kernel\<close>




text \<open>
  Claim C6, as amended.  For an integer bignum \<open>a\<close> and a bit count \<open>n\<close>: with
  \<^verbatim>\<open>is_signed\<close> and \<open>1 \<le> n\<close>, \<^verbatim>\<open>bignum_fits_in_bits\<close> returns true iff the
  magnitude is at most \<open>2 ^ (m - 1)\<close> when \<open>a\<close> is negative and at most
  \<open>2 ^ (m - 1) - 1\<close> when it is not, where \<open>m\<close> is the smaller of \<open>n\<close> and 64;
  without \<^verbatim>\<open>is_signed\<close> it returns true iff \<open>a\<close> is negative with magnitude zero,
  or \<open>a\<close> is not negative and its magnitude is below \<open>2 ^ n\<close> (its bit length, which
  is what \<^verbatim>\<open>u64_log2\<close> counts, is at most \<open>n\<close>).
\<close>

theorem bignum_fits_in_bits_bounds:
  assumes "kind a = BigNumKindInt"
  shows "(1 \<le> n \<longrightarrow> bignum_fits_in_bits a n True =
            Inr (if is_negative a then unat (x_uint a) \<le> 2 ^ (nat (min n 64) - 1)
                 else unat (x_uint a) \<le> 2 ^ (nat (min n 64) - 1) - 1)) \<and>
         bignum_fits_in_bits a n False =
            Inr (if is_negative a then x_uint a = 0
                 else 0 \<le> n \<and> unat (x_uint a) < 2 ^ nat n)"
  using fits_signed [OF assms] fits_unsigned [OF assms] by blast

text \<open>Witness of C6: 127 fits in 8 signed bits, 255 in 8 unsigned bits.\<close>

theorem bignum_fits_in_bits_bounds_witness:
  "bignum_fits_in_bits \<lparr>kind = BigNumKindInt, is_negative = False, data = 127\<rparr> 8 True = Inr True \<and>
   bignum_fits_in_bits \<lparr>kind = BigNumKindInt, is_negative = False, data = 255\<rparr> 8 False = Inr True"
  using bignum_fits_in_bits_bounds
      [of "\<lparr>kind = BigNumKindInt, is_negative = False, data = 127\<rparr>" 8]
    bignum_fits_in_bits_bounds
      [of "\<lparr>kind = BigNumKindInt, is_negative = False, data = 255\<rparr>" 8]
  by simp

text \<open>
  Counterexample to C6 as stated: the positive 128 has magnitude \<open>\<le> 2 ^ (8 - 1)\<close> and
  does not fit in 8 signed bits; 4 has \<open>\<lceil>log\<^sub>2 4\<rceil> = 2\<close> and does not fit in 2 unsigned
  bits.
\<close>

theorem bignum_fits_in_bits_positive_bound:
  "bignum_fits_in_bits \<lparr>kind = BigNumKindInt, is_negative = False, data = 128\<rparr> 8 True = Inr False \<and>
   unat (x_uint \<lparr>kind = BigNumKindInt, is_negative = False, data = 128\<rparr>) \<le> 2 ^ (8 - 1) \<and>
   bignum_fits_in_bits \<lparr>kind = BigNumKindInt, is_negative = False, data = 4\<rparr> 2 False = Inr False \<and>
   ceillog2 (unat (x_uint \<lparr>kind = BigNumKindInt, is_negative = False, data = 4\<rparr>)) \<le> 2"
proof -
  have "ceillog2 4 = 2"
    using ceillog2_2_power [of 2] by simp
  moreover have "u64_log2 4 = 3"
    by (simp add: u64_log2_def u64_log2_loop_step u64_log2_loop_zero drop_bit_eq_div)
  ultimately show ?thesis
    by (simp add: bignum_fits_in_bits_def)
qed

lemma bignum_cmp_gte_lte_swap: "bignum_cmp_gte a b = bignum_cmp_lte b a"
proof (cases "kind a = kind b")
  case False
  then have "kind b \<noteq> kind a" by simp
  with False show ?thesis
    by (simp add: bignum_cmp_gte_def bignum_cmp_lte_def)
next
  case True
  show ?thesis
  proof (cases "kind a")
    case BigNumKindFloat
    with True show ?thesis
      by (auto simp: bignum_cmp_gte_def bignum_cmp_lte_def double_le_def double_ge_def)
  next
    case BigNumKindInt
    with True have k: "kind a = BigNumKindInt" "kind b = BigNumKindInt" by simp_all
    show ?thesis
      by (cases "is_negative a"; cases "is_negative b")
         (simp_all add: bignum_cmp_gte_def bignum_cmp_lte_def k)
  qed
qed

lemma bignum_cmp_lte_split_int:
  assumes "kind a = BigNumKindInt" "kind b = BigNumKindInt" "normalized a" "normalized b"
  shows "bignum_cmp_lte a b =
           and_then (bignum_cmp_lt a b) (\<lambda>t. if t then Inr True else bignum_cmp_eq a b)"
proof -
  consider (pp) "\<not> is_negative a" "\<not> is_negative b"
    | (nn) "is_negative a" "is_negative b"
    | (np) "is_negative a" "\<not> is_negative b"
    | (pn) "\<not> is_negative a" "is_negative b"
    by blast
  then show ?thesis
  proof cases
    case pp
    with assms(1,2) show ?thesis
      by (auto simp: bignum_cmp_lt_def bignum_cmp_eq_def bignum_cmp_gte_def bignum_cmp_lte_def)
  next
    case nn
    with assms(1,2) show ?thesis
      by (auto simp: bignum_cmp_lt_def bignum_cmp_eq_def bignum_cmp_gte_def bignum_cmp_lte_def)
  next
    case np
    with assms(1,2) show ?thesis
      by (simp add: bignum_cmp_lt_def bignum_cmp_eq_def bignum_cmp_gte_def bignum_cmp_lte_def)
  next
    case pn
    with assms(4) have "x_uint b \<noteq> 0" by (auto simp: normalized_def)
    with pn assms(1,2) show ?thesis
      by (simp add: bignum_cmp_lt_def bignum_cmp_eq_def bignum_cmp_gte_def bignum_cmp_lte_def)
  qed
qed

lemma bignum_cmp_lte_split_float:
  assumes "kind a = BigNumKindFloat" "kind b = BigNumKindFloat"
    and "\<not> double_is_nan (x_float a)" "\<not> double_is_nan (x_float b)"
  shows "bignum_cmp_lte a b =
           and_then (bignum_cmp_lt a b) (\<lambda>t. if t then Inr True else bignum_cmp_eq a b)"
  using assms
  by (simp add: bignum_cmp_lt_def bignum_cmp_eq_def bignum_cmp_gte_def bignum_cmp_lte_def
      double_le_def double_ge_def double_eq_def)

text \<open>
  Claim C7, as amended.  For all bignums \<open>a\<close> and \<open>b\<close>, \<^verbatim>\<open>bignum_cmp_eq\<close> is
  symmetric and \<^verbatim>\<open>bignum_cmp_lt(a, b)\<close> is \<^verbatim>\<open>bignum_cmp_gt(b, a)\<close>;
  \<^verbatim>\<open>bignum_cmp_lte(a, b)\<close> is \<^verbatim>\<open>bignum_cmp_lt(a, b) || bignum_cmp_eq(a, b)\<close>
  when the operands are normalized integers (the comparison assumes a normalized sign) or
  floats that are not NaN.
\<close>

theorem bignum_cmp_laws:
  "bignum_cmp_eq a b = bignum_cmp_eq b a \<and>
   bignum_cmp_lt a b = bignum_cmp_gt b a \<and>
   ((kind a = BigNumKindInt \<longrightarrow> normalized a \<and> normalized b) \<longrightarrow>
    (kind a = BigNumKindFloat \<longrightarrow> \<not> double_is_nan (x_float a) \<and> \<not> double_is_nan (x_float b)) \<longrightarrow>
    (bignum_cmp_lte a b =
           and_then (bignum_cmp_lt a b) (\<lambda>t. if t then Inr True else bignum_cmp_eq a b)))"
proof (intro conjI impI)
  show "bignum_cmp_eq a b = bignum_cmp_eq b a"
    by (cases "kind a = kind b"; cases "x_uint a = x_uint b")
       (auto simp: bignum_cmp_eq_def double_eq_def)
  show "bignum_cmp_lt a b = bignum_cmp_gt b a"
    by (simp add: bignum_cmp_lt_def bignum_cmp_gt_def bignum_cmp_gte_lte_swap)
next
  assume i: "kind a = BigNumKindInt \<longrightarrow> normalized a \<and> normalized b"
    and f: "kind a = BigNumKindFloat \<longrightarrow> \<not> double_is_nan (x_float a) \<and> \<not> double_is_nan (x_float b)"
  show "bignum_cmp_lte a b =
           and_then (bignum_cmp_lt a b) (\<lambda>t. if t then Inr True else bignum_cmp_eq a b)"
  proof (cases "kind a = kind b")
    case False
    then show ?thesis
      by (simp add: bignum_cmp_lte_def bignum_cmp_lt_def bignum_cmp_gte_def)
  next
    case True
    show ?thesis
    proof (cases "kind a")
      case BigNumKindInt
      with True i show ?thesis
        by (intro bignum_cmp_lte_split_int) simp_all
    next
      case BigNumKindFloat
      with True f show ?thesis
        by (intro bignum_cmp_lte_split_float) simp_all
    qed
  qed
qed

text \<open>Witness of C7: \<open>-3\<close> against \<open>0\<close>, and the float 1.0 against itself.\<close>

theorem bignum_cmp_laws_witness:
  "bignum_cmp_lte \<lparr>kind = BigNumKindInt, is_negative = True, data = 3\<rparr>
      \<lparr>kind = BigNumKindInt, is_negative = False, data = 0\<rparr> = Inr True \<and>
   bignum_cmp_lt \<lparr>kind = BigNumKindInt, is_negative = True, data = 3\<rparr>
      \<lparr>kind = BigNumKindInt, is_negative = False, data = 0\<rparr> = Inr True \<and>
   bignum_cmp_lte \<lparr>kind = BigNumKindFloat, is_negative = False, data = 0x3FF0000000000000\<rparr>
      \<lparr>kind = BigNumKindFloat, is_negative = False, data = 0x3FF0000000000000\<rparr> = Inr True \<and>
   bignum_cmp_eq \<lparr>kind = BigNumKindFloat, is_negative = False, data = 0x3FF0000000000000\<rparr>
      \<lparr>kind = BigNumKindFloat, is_negative = False, data = 0x3FF0000000000000\<rparr> = Inr True"
  using bignum_cmp_laws
      [of "\<lparr>kind = BigNumKindInt, is_negative = True, data = 3\<rparr>"
          "\<lparr>kind = BigNumKindInt, is_negative = False, data = 0\<rparr>"]
    bignum_cmp_laws
      [of "\<lparr>kind = BigNumKindFloat, is_negative = False, data = 0x3FF0000000000000\<rparr>"
          "\<lparr>kind = BigNumKindFloat, is_negative = False, data = 0x3FF0000000000000\<rparr>"]
  by (simp add: bignum_cmp_lte_def bignum_cmp_lt_def bignum_cmp_gte_def bignum_cmp_eq_def
      normalized_def double_is_nan_def double_le_def double_eq_def double_key_def)

text \<open>
  Counterexample to C7 as stated: for the integers \<open>+0\<close> and \<open>-0\<close> (magnitude zero,
  sign set) \<^verbatim>\<open>bignum_cmp_lte\<close> is false while \<^verbatim>\<open>bignum_cmp_eq\<close> is true.
\<close>

theorem bignum_cmp_lte_negative_zero:
  "bignum_cmp_lte \<lparr>kind = BigNumKindInt, is_negative = False, data = 0\<rparr>
      \<lparr>kind = BigNumKindInt, is_negative = True, data = 0\<rparr> = Inr False \<and>
   bignum_cmp_lt \<lparr>kind = BigNumKindInt, is_negative = False, data = 0\<rparr>
      \<lparr>kind = BigNumKindInt, is_negative = True, data = 0\<rparr> = Inr False \<and>
   bignum_cmp_eq \<lparr>kind = BigNumKindInt, is_negative = False, data = 0\<rparr>
      \<lparr>kind = BigNumKindInt, is_negative = True, data = 0\<rparr> = Inr True"
  by (simp add: bignum_cmp_lte_def bignum_cmp_lt_def bignum_cmp_gte_def bignum_cmp_eq_def)

text \<open>
  Claim C9 at a failing input.  With operands \<open>5\<close> and \<open>-3\<close> and a \<^verbatim>\<open>*dest\<close>
  whose sign flag is set on entry, \<^verbatim>\<open>bignum_add\<close> returns false and leaves
  \<open>-2\<close> in \<^verbatim>\<open>*dest\<close>: the branch in which the subtraction does not overflow
  never writes \<^verbatim>\<open>dest->is_negative\<close>, while the other two branches do.  The sum
  is 2.
\<close>

theorem bignum_add_keeps_stale_sign:
  "bignum_add example_fpu \<lparr>kind = BigNumKindInt, is_negative = True, data = 0\<rparr>
      \<lparr>kind = BigNumKindInt, is_negative = False, data = 5\<rparr>
      \<lparr>kind = BigNumKindInt, is_negative = True, data = 3\<rparr>
   = Inr (False, \<lparr>kind = BigNumKindInt, is_negative = True, data = 2\<rparr>) \<and>
   int_of_bignum \<lparr>kind = BigNumKindInt, is_negative = True, data = 2\<rparr> = - 2 \<and>
   int_of_bignum \<lparr>kind = BigNumKindInt, is_negative = False, data = 5\<rparr>
     + int_of_bignum \<lparr>kind = BigNumKindInt, is_negative = True, data = 3\<rparr> = 2"
  by (simp add: bignum_add_pos_neg int_of_bignum_def)

lemma normalized_init_signed: "normalized (bignum_init_signed dest x)"
proof (cases "sint x < 0")
  case True
  then have "x \<noteq> 0" by auto
  with True show ?thesis
    by (simp add: bignum_init_signed_def normalized_def)
next
  case False
  then show ?thesis
    by (simp add: bignum_init_signed_def normalized_def)
qed

lemma normalized_init_unsigned: "normalized (bignum_init_unsigned dest x)"
  by (simp add: bignum_init_unsigned_def normalized_def)

lemma normalized_not:
  assumes "kind a = BigNumKindInt" "0 \<le> n" "n \<noteq> 63"
    and "\<not> (is_negative a \<and> x_uint a = 0x8000000000000000)"
  shows "\<exists>d. bignum_not dest a n s = Inr d \<and> normalized d"
  using assms
  by (simp add: bignum_not_def bignum_to_twos_complement_def Let_def normalized_init_signed
      normalized_init_unsigned)

lemma normalized_truncate:
  assumes "kind a = BigNumKindInt" "\<not> is_negative a" "0 \<le> n" "n \<noteq> 63"
  shows "\<exists>d. bignum_truncate a n = Inr d \<and> normalized d"
  using assms by (simp add: bignum_truncate_def normalized_def)

lemma normalized_bitwise:
  assumes "kind a = BigNumKindInt" "kind b = BigNumKindInt"
    and "\<not> is_negative a" "\<not> is_negative b" "\<not> is_negative dest"
  shows "(\<exists>d. bignum_or dest a b = Inr (False, d) \<and> normalized d) \<and>
         (\<exists>d. bignum_and dest a b = Inr (False, d) \<and> normalized d) \<and>
         (\<exists>d. bignum_xor dest a b = Inr (False, d) \<and> normalized d) \<and>
         (x_uint b < 64 \<longrightarrow>
            (\<exists>d. bignum_shl dest a b = Inr (False, d) \<and> normalized d) \<and>
            (\<exists>d. bignum_shr dest a b = Inr (False, d) \<and> normalized d))"
proof -
  have "x_uint b < 64 \<Longrightarrow> \<not> 64 \<le> unat (x_uint b)"
    by (simp add: word_less_nat_alt)
  with assms show ?thesis
    by (simp add: bignum_or_def bignum_and_def bignum_xor_def bignum_shl_def bignum_shr_def
        normalized_def)
qed

lemma normalized_scalar:
  assumes "kind a = BigNumKindInt" "\<not> is_negative a"
  shows "(\<exists>f d. bignum_increment_by_scalar a x = Inr (f, d) \<and> normalized d) \<and>
         (\<exists>f d. bignum_multiply_by_scalar a x = Inr (f, d) \<and> normalized d)"
  using assms
  by (simp add: bignum_increment_by_scalar_def bignum_multiply_by_scalar_def Let_def normalized_def)

text \<open>
  Claim C5, as amended.  Applied to normalized integer operands, \<^verbatim>\<open>bignum_init_unsigned\<close>,
  \<^verbatim>\<open>bignum_init_signed\<close>, \<^verbatim>\<open>bignum_negate\<close>, \<^verbatim>\<open>bignum_div\<close> (divisor
  magnitude not zero) and \<^verbatim>\<open>bignum_rem\<close> (operands not negative, divisor magnitude
  not zero) leave a normalized value in the destination, and so do \<^verbatim>\<open>bignum_add\<close>,
  \<^verbatim>\<open>bignum_sub\<close> and \<^verbatim>\<open>bignum_mul\<close> whenever they report no overflow;
  \<^verbatim>\<open>bignum_not\<close> does for a bit count that is neither negative nor 63 and an
  operand other than \<open>-2\<^sup>6\<^sup>3\<close>; \<^verbatim>\<open>bignum_truncate\<close> does for a bit count that is
  neither negative nor 63 and an operand that is not negative; the two scalar helpers do
  when the operand is not negative; \<^verbatim>\<open>bignum_or\<close>, \<^verbatim>\<open>bignum_and\<close> and
  \<^verbatim>\<open>bignum_xor\<close> do when the operands and the sign flag of \<^verbatim>\<open>*dest\<close> on entry
  are not negative, and \<^verbatim>\<open>bignum_shl\<close> and \<^verbatim>\<open>bignum_shr\<close> do when in addition
  the shift count is below 64; and \<open>a - a\<close> is 0 with a positive sign for every
  integer bignum \<open>a\<close>.
\<close>

theorem bignum_results_normalized:
  assumes "kind a = BigNumKindInt" and "kind b = BigNumKindInt"
  shows "(normalized a \<and> normalized b \<longrightarrow>
            normalized (bignum_init_unsigned dest x) \<and>
            normalized (bignum_init_signed dest x) \<and>
            (\<exists>d. bignum_negate fp dest a = Inr d \<and> normalized d) \<and>
            (\<exists>f d. bignum_add fp dest a b = Inr (f, d) \<and> (\<not> f \<longrightarrow> normalized d)) \<and>
            (\<exists>f d. bignum_sub fp tmp dest a b = Inr (f, d) \<and> (\<not> f \<longrightarrow> normalized d)) \<and>
            (\<exists>f d. bignum_mul fp dest a b = Inr (f, d) \<and> (\<not> f \<longrightarrow> normalized d)) \<and>
            (x_uint b \<noteq> 0 \<longrightarrow> (\<exists>d. bignum_div fp dest a b = Inr (False, d) \<and> normalized d)) \<and>
            (\<not> is_negative a \<and> \<not> is_negative b \<and> x_uint b \<noteq> 0 \<longrightarrow>
               (\<exists>d. bignum_rem fp dest a b = Inr (False, d) \<and> normalized d)) \<and>
            (0 \<le> n \<and> n \<noteq> 63 \<and> \<not> (is_negative a \<and> x_uint a = 0x8000000000000000) \<longrightarrow>
               (\<exists>d. bignum_not dest a n s = Inr d \<and> normalized d)) \<and>
            (0 \<le> n \<and> n \<noteq> 63 \<and> \<not> is_negative a \<longrightarrow>
               (\<exists>d. bignum_truncate a n = Inr d \<and> normalized d)) \<and>
            (\<not> is_negative a \<longrightarrow>
               (\<exists>f d. bignum_increment_by_scalar a x = Inr (f, d) \<and> normalized d) \<and>
               (\<exists>f d. bignum_multiply_by_scalar a x = Inr (f, d) \<and> normalized d)) \<and>
            (\<not> is_negative a \<and> \<not> is_negative b \<and> \<not> is_negative dest \<longrightarrow>
               (\<exists>d. bignum_or dest a b = Inr (False, d) \<and> normalized d) \<and>
               (\<exists>d. bignum_and dest a b = Inr (False, d) \<and> normalized d) \<and>
               (\<exists>d. bignum_xor dest a b = Inr (False, d) \<and> normalized d) \<and>
               (x_uint b < 64 \<longrightarrow>
                  (\<exists>d. bignum_shl dest a b = Inr (False, d) \<and> normalized d) \<and>
                  (\<exists>d. bignum_shr dest a b = Inr (False, d) \<and> normalized d)))) \<and>
         bignum_sub fp tmp dest a a =
           Inr (False, dest\<lparr>kind := BigNumKindInt, is_negative := False, data := 0\<rparr>)"
proof (intro conjI impI; (elim conjE)?)
  show "normalized (bignum_init_unsigned dest x)"
    by (rule normalized_init_unsigned)
  show "normalized (bignum_init_signed dest x)"
    by (rule normalized_init_signed)
  show "\<exists>d. bignum_negate fp dest a = Inr d \<and> normalized d"
    by (simp add: bignum_negate_int [OF assms(1)] normalized_def)
  show "bignum_sub fp tmp dest a a =
           Inr (False, dest\<lparr>kind := BigNumKindInt, is_negative := False, data := 0\<rparr>)"
    by (rule bignum_sub_self [OF assms(1)])
  show "\<exists>f d. bignum_mul fp dest a b = Inr (f, d) \<and> (\<not> f \<longrightarrow> normalized d)"
    unfolding bignum_mul_int [OF assms] by (auto simp: normalized_def)
next
  assume "normalized a" "normalized b"
  with bignum_add_int [OF assms, of fp dest]
  show "\<exists>f d. bignum_add fp dest a b = Inr (f, d) \<and> (\<not> f \<longrightarrow> normalized d)"
    by blast
next
  assume "normalized a"
  with bignum_sub_int [OF assms, of fp tmp dest]
  show "\<exists>f d. bignum_sub fp tmp dest a b = Inr (f, d) \<and> (\<not> f \<longrightarrow> normalized d)"
    by blast
next
  assume "x_uint b \<noteq> 0"
  then show "\<exists>d. bignum_div fp dest a b = Inr (False, d) \<and> normalized d"
    by (simp add: bignum_div_int [OF assms] normalized_def)
next
  assume "\<not> is_negative a" "\<not> is_negative b" "x_uint b \<noteq> 0"
  then show "\<exists>d. bignum_rem fp dest a b = Inr (False, d) \<and> normalized d"
    by (simp add: bignum_rem_int [OF assms] normalized_def)
next
  assume "0 \<le> n" "n \<noteq> 63" "\<not> (is_negative a \<and> x_uint a = 0x8000000000000000)"
  then show "\<exists>d. bignum_not dest a n s = Inr d \<and> normalized d"
    by (rule normalized_not [OF assms(1)])
next
  assume "0 \<le> n" "n \<noteq> 63" "\<not> is_negative a"
  then show "\<exists>d. bignum_truncate a n = Inr d \<and> normalized d"
    by (simp add: normalized_truncate [OF assms(1)])
next
  assume na: "\<not> is_negative a"
  from normalized_scalar [OF assms(1) na, of x]
  show "\<exists>f d. bignum_increment_by_scalar a x = Inr (f, d) \<and> normalized d"
    and "\<exists>f d. bignum_multiply_by_scalar a x = Inr (f, d) \<and> normalized d"
    by blast+
next
  assume s: "\<not> is_negative a" "\<not> is_negative b" "\<not> is_negative dest"
  note bw = normalized_bitwise [OF assms s]
  from bw show "\<exists>d. bignum_or dest a b = Inr (False, d) \<and> normalized d" by blast
  from bw show "\<exists>d. bignum_and dest a b = Inr (False, d) \<and> normalized d" by blast
  from bw show "\<exists>d. bignum_xor dest a b = Inr (False, d) \<and> normalized d" by blast
  assume "x_uint b < 64"
  with bw show "\<exists>d. bignum_shl dest a b = Inr (False, d) \<and> normalized d" by blast
  from bw \<open>x_uint b < 64\<close> show "\<exists>d. bignum_shr dest a b = Inr (False, d) \<and> normalized d" by blast
qed

text \<open>Witness of C5: the operands 7 and 2, a zeroed destination, 8 bits.\<close>

theorem bignum_results_normalized_witness:
  "normalized \<lparr>kind = BigNumKindInt, is_negative = False, data = 7\<rparr> \<and>
   normalized \<lparr>kind = BigNumKindInt, is_negative = False, data = 2\<rparr> \<and>
   (\<exists>d. bignum_div example_fpu \<lparr>kind = BigNumKindInt, is_negative = False, data = 0\<rparr>
          \<lparr>kind = BigNumKindInt, is_negative = False, data = 7\<rparr>
          \<lparr>kind = BigNumKindInt, is_negative = False, data = 2\<rparr> = Inr (False, d) \<and>
        normalized d) \<and>
   (\<exists>d. bignum_truncate \<lparr>kind = BigNumKindInt, is_negative = False, data = 7\<rparr> 8 = Inr d \<and>
        normalized d) \<and>
   (\<exists>d. bignum_not \<lparr>kind = BigNumKindInt, is_negative = False, data = 0\<rparr>
          \<lparr>kind = BigNumKindInt, is_negative = False, data = 7\<rparr> 8 True = Inr d \<and>
        normalized d) \<and>
   (\<exists>d. bignum_shl \<lparr>kind = BigNumKindInt, is_negative = False, data = 0\<rparr>
          \<lparr>kind = BigNumKindInt, is_negative = False, data = 7\<rparr>
          \<lparr>kind = BigNumKindInt, is_negative = False, data = 2\<rparr> = Inr (False, d) \<and>
        normalized d) \<and>
   bignum_sub example_fpu \<lparr>kind = BigNumKindInt, is_negative = False, data = 0\<rparr>
      \<lparr>kind = BigNumKindInt, is_negative = False, data = 0\<rparr>
      \<lparr>kind = BigNumKindInt, is_negative = False, data = 7\<rparr>
      \<lparr>kind = BigNumKindInt, is_negative = False, data = 7\<rparr>
    = Inr (False, \<lparr>kind = BigNumKindInt, is_negative = False, data = 0\<rparr>)"
  using bignum_results_normalized
    [where a = "\<lparr>kind = BigNumKindInt, is_negative = False, data = 7\<rparr>"
       and b = "\<lparr>kind = BigNumKindInt, is_negative = False, data = 2\<rparr>"
       and dest = "\<lparr>kind = BigNumKindInt, is_negative = False, data = 0\<rparr>"
       and tmp = "\<lparr>kind = BigNumKindInt, is_negative = False, data = 0\<rparr>"
       and fp = example_fpu and n = 8 and s = True and x = 5]
  by (simp add: normalized_def)

text \<open>
  Counterexample to C5 as stated: adding \<open>-2\<^sup>6\<^sup>3\<close> to itself reports overflow and
  leaves magnitude zero with the sign set; truncating \<open>-4\<close> to 2 bits
  (\<^verbatim>\<open>// TODO handle case when negative = true\<close>) leaves magnitude zero with the sign
  set as well; \<open>5 & 2\<close> written to a destination whose sign flag is set on entry
  leaves magnitude zero with that sign, because the bitwise functions never write the
  flag; and a shift by 64, a truncation or complement to 63 bits and the complement of
  \<open>-2\<^sup>6\<^sup>3\<close> have no defined result at all.
\<close>

theorem bignum_results_not_normalized:
  "normalized \<lparr>kind = BigNumKindInt, is_negative = True, data = 0x8000000000000000\<rparr> \<and>
   bignum_add example_fpu \<lparr>kind = BigNumKindInt, is_negative = False, data = 0\<rparr>
      \<lparr>kind = BigNumKindInt, is_negative = True, data = 0x8000000000000000\<rparr>
      \<lparr>kind = BigNumKindInt, is_negative = True, data = 0x8000000000000000\<rparr>
    = Inr (True, \<lparr>kind = BigNumKindInt, is_negative = True, data = 0\<rparr>) \<and>
   normalized \<lparr>kind = BigNumKindInt, is_negative = True, data = 4\<rparr> \<and>
   bignum_truncate \<lparr>kind = BigNumKindInt, is_negative = True, data = 4\<rparr> 2
    = Inr \<lparr>kind = BigNumKindInt, is_negative = True, data = 0\<rparr> \<and>
   normalized \<lparr>kind = BigNumKindInt, is_negative = False, data = 5\<rparr> \<and>
   normalized \<lparr>kind = BigNumKindInt, is_negative = False, data = 2\<rparr> \<and>
   bignum_and \<lparr>kind = BigNumKindInt, is_negative = True, data = 9\<rparr>
      \<lparr>kind = BigNumKindInt, is_negative = False, data = 5\<rparr>
      \<lparr>kind = BigNumKindInt, is_negative = False, data = 2\<rparr>
    = Inr (False, \<lparr>kind = BigNumKindInt, is_negative = True, data = 0\<rparr>) \<and>
   \<not> normalized \<lparr>kind = BigNumKindInt, is_negative = True, data = 0\<rparr> \<and>
   normalized \<lparr>kind = BigNumKindInt, is_negative = False, data = 64\<rparr> \<and>
   bignum_shl \<lparr>kind = BigNumKindInt, is_negative = False, data = 0\<rparr>
      \<lparr>kind = BigNumKindInt, is_negative = False, data = 5\<rparr>
      \<lparr>kind = BigNumKindInt, is_negative = False, data = 64\<rparr>
    = Inl Undefined_behavior \<and>
   bignum_truncate \<lparr>kind = BigNumKindInt, is_negative = False, data = 5\<rparr> 63
    = Inl Undefined_behavior \<and>
   bignum_not \<lparr>kind = BigNumKindInt, is_negative = False, data = 0\<rparr>
      \<lparr>kind = BigNumKindInt, is_negative = False, data = 5\<rparr> 63 True
    = Inl Undefined_behavior \<and>
   bignum_not \<lparr>kind = BigNumKindInt, is_negative = False, data = 0\<rparr>
      \<lparr>kind = BigNumKindInt, is_negative = True, data = 0x8000000000000000\<rparr> 8 True
    = Inl Undefined_behavior"
  by (simp add: normalized_def bignum_add_same_sign uaddll_overflow_def bignum_truncate_def
      bignum_and_def bignum_shl_def bignum_not_def bignum_to_twos_complement_def)

section \<open>Parameter attributes\<close>








section \<open>Lowering extends the code built so far\<close>

lemma extends_refl: "positioned g \<Longrightarrow> extends g g"
  by (simp add: extends_def)

lemma extends_positioned: "extends g g' \<Longrightarrow> positioned g'"
  by (simp add: extends_def)

lemma extends_trans:
  assumes "extends g g1" and "extends g1 g2"
  shows "extends g g2"
proof -
  have p: "insert_block g < length (blocks g)"
    using assms(1) by (simp add: extends_def positioned_def)
  have l1: "length (blocks g) \<le> length (blocks g1)" and l2: "length (blocks g1) \<le> length (blocks g2)"
    using assms by (simp_all add: extends_def)
  have i1: "insert_block g1 = insert_block g \<or> length (blocks g) \<le> insert_block g1"
    and i2: "insert_block g2 = insert_block g1 \<or> length (blocks g1) \<le> insert_block g2"
    using assms by (simp_all add: extends_def)
  have b1: "\<And>b. b < length (blocks g) \<Longrightarrow> fst (blocks g1 ! b) = fst (blocks g ! b) \<and>
        (if b = insert_block g then prefix (snd (blocks g ! b)) (snd (blocks g1 ! b))
         else snd (blocks g1 ! b) = snd (blocks g ! b))"
    using assms(1) by (simp add: extends_def)
  have b2: "\<And>b. b < length (blocks g1) \<Longrightarrow> fst (blocks g2 ! b) = fst (blocks g1 ! b) \<and>
        (if b = insert_block g1 then prefix (snd (blocks g1 ! b)) (snd (blocks g2 ! b))
         else snd (blocks g2 ! b) = snd (blocks g1 ! b))"
    using assms(2) by (simp add: extends_def)
  have blk: "fst (blocks g2 ! b) = fst (blocks g ! b) \<and>
        (if b = insert_block g then prefix (snd (blocks g ! b)) (snd (blocks g2 ! b))
         else snd (blocks g2 ! b) = snd (blocks g ! b))" if b: "b < length (blocks g)" for b
  proof -
    have b': "b < length (blocks g1)" using b l1 by simp
    show ?thesis
    proof (cases "b = insert_block g1")
      case True
      then have "insert_block g1 = insert_block g" using i1 b by auto
      then show ?thesis using b1 [OF b] b2 [OF b'] True by (auto intro: prefix_order.trans)
    next
      case False
      then show ?thesis using b1 [OF b] b2 [OF b'] by auto
    qed
  qed
  have ins: "insert_block g2 = insert_block g \<or> length (blocks g) \<le> insert_block g2"
    using i1 i2 l1 by auto
  show ?thesis
    unfolding extends_def
    using assms blk ins l1 l2 by (simp add: extends_def)
qed

lemma extends_LLVMBuild: "positioned g \<Longrightarrow> extends g (snd (LLVMBuild i g))"
  by (auto simp: extends_def positioned_def LLVMBuild_def Let_def nth_list_update)

lemma extends_LLVMAppendBasicBlock: "positioned g \<Longrightarrow> extends g (snd (LLVMAppendBasicBlock n g))"
  by (auto simp: extends_def positioned_def LLVMAppendBasicBlock_def nth_append)

lemma build_extends: "LLVMBuild i g = (v, g') \<Longrightarrow> extends g0 g \<Longrightarrow> extends g0 g'"
  using extends_trans [OF _ extends_LLVMBuild [of g i]] extends_positioned [of g0 g] by simp

lemma append_extends: "LLVMAppendBasicBlock n g = (v, g') \<Longrightarrow> extends g0 g \<Longrightarrow> extends g0 g'"
  using extends_trans [OF _ extends_LLVMAppendBasicBlock [of g n]] extends_positioned [of g0 g] by simp

lemma position_extends:
  "extends g0 g \<Longrightarrow> length (blocks g0) \<le> b \<Longrightarrow> b < length (blocks g) \<Longrightarrow>
   extends g0 (LLVMPositionBuilderAtEnd b g)"
  by (auto simp: extends_def positioned_def LLVMPositionBuilderAtEnd_def)

lemma add_incoming_extends:
  "extends g0 g \<Longrightarrow> length (blocks g0) \<le> b \<Longrightarrow> extends g0 (LLVMAddIncoming (LLVMInstruction b i) inc g)"
  by (auto simp: extends_def positioned_def LLVMAddIncoming_def nth_list_update split: LLVMInstr.splits)

lemma extends_update [simp]:
  "extends g0 (g\<lparr>cur_block_context := c\<rparr>) = extends g0 g"
  "extends g0 (g\<lparr>break_block_stack := bs\<rparr>) = extends g0 g"
  "extends g0 (g\<lparr>continue_block_stack := cs\<rparr>) = extends g0 g"
  "extends (g0\<lparr>cur_block_context := c\<rparr>) g = extends g0 g"
  "extends (g0\<lparr>break_block_stack := bs\<rparr>) g = extends g0 g"
  "extends (g0\<lparr>continue_block_stack := cs\<rparr>) g = extends g0 g"
  by (simp_all add: extends_def positioned_def)

lemma gen_array_elem_ptr_extends:
  "gen_array_elem_ptr p t s g = Inr (v, g') \<Longrightarrow> extends g0 g \<Longrightarrow> extends g0 g'"
  by (auto simp: gen_array_elem_ptr_def split: if_splits prod.splits; blast intro: build_extends)

lemma gen_arithmetic_bin_op_extends:
  "gen_arithmetic_bin_op a b t1 t2 op g = Inr (v, g') \<Longrightarrow> extends g0 g \<Longrightarrow> extends g0 g'"
  by (auto simp: gen_arithmetic_bin_op_def split: if_splits; blast intro: build_extends)

lemma gen_struct_memcpy_extends:
  "gen_struct_memcpy s d t g = Inr (v, g') \<Longrightarrow> extends g0 g \<Longrightarrow> extends g0 g'"
  by (auto simp: gen_struct_memcpy_def Let_def split: if_splits prod.splits; blast intro: build_extends)

lemma gen_assign_raw_extends:
  "gen_assign_raw n op t v1 t1 t2 g = Inr (v, g') \<Longrightarrow> extends g0 g \<Longrightarrow> extends g0 g'"
  by (auto simp: gen_assign_raw_def split: if_splits prod.splits sum.splits; blast intro: build_extends gen_struct_memcpy_extends gen_arithmetic_bin_op_extends)

lemma gen_bare_cast_extends:
  "gen_bare_cast n v0 t1 t2 c g = Inr (v, g') \<Longrightarrow> extends g0 g \<Longrightarrow> extends g0 g'"
  by (auto simp: gen_bare_cast_def split: if_splits prod.splits sum.splits CastOp.splits TypeTableEntryData.splits; blast intro: build_extends gen_assign_raw_extends)

lemma gen_expr_casts_extends:
  "gen_expr_casts n v0 g = Inr (v, g') \<Longrightarrow> extends g0 g \<Longrightarrow> extends g0 g'"
  by (auto simp: gen_expr_casts_def Let_def split: if_splits prod.splits sum.splits option.splits; blast intro: gen_bare_cast_extends)

lemma gen_symbol_extends:
  "gen_symbol n g = Inr (v, g') \<Longrightarrow> extends g0 g \<Longrightarrow> extends g0 g'"
  by (auto simp: gen_symbol_def split: if_splits AstNode.splits option.splits; blast intro: build_extends)

lemma gen_break_extends:
  "gen_break n g = Inr (v, g') \<Longrightarrow> extends g0 g \<Longrightarrow> extends g0 g'"
  by (auto simp: gen_break_def split: if_splits AstNode.splits option.splits; blast intro: build_extends)

lemma gen_continue_extends:
  "gen_continue n g = Inr (v, g') \<Longrightarrow> extends g0 g \<Longrightarrow> extends g0 g'"
  by (auto simp: gen_continue_def split: if_splits AstNode.splits option.splits; blast intro: build_extends)

end
